theory Spec2Isabelle
  imports Complex_Main
begin

section \<open>Payloads and Python's built-in operations\<close>

text \<open>
  The module \<^verbatim>\<open>twitchio/models.py\<close> turns decoded JSON payloads into records. A payload
  value is a JSON value; a Python \<^verbatim>\<open>dict\<close> keeps its keys in insertion order, so an object is
  an association list. \<^verbatim>\<open>None\<close> is \<open>JNull\<close>. Attributes that the constructors copy
  verbatim from the payload stay JSON values in the model, as they are untyped in the source.
\<close>

datatype json =
    JNull
  | JBool bool
  | JInt int
  | JStr string
  | JList "json list"
  | JObj "(string \<times> json) list"

type_synonym dict = "(string \<times> json) list"

datatype py_error =
    KeyError string
  | TypeError
  | ValueError
  | AttributeError string
  | IndexError
  | OverflowError
  | ZeroDivisionError

text \<open>Sequencing of two steps, the first of which may raise.\<close>

definition bnd :: "py_error + 'a \<Rightarrow> ('a \<Rightarrow> py_error + 'b) \<Rightarrow> py_error + 'b" where
  "bnd m f = (case m of Inl e \<Rightarrow> Inl e | Inr v \<Rightarrow> f v)"

text \<open>\<^verbatim>\<open>data[k]\<close> on a \<^verbatim>\<open>dict\<close>: the value, or \<^verbatim>\<open>KeyError(k)\<close>.\<close>

definition item :: "dict \<Rightarrow> string \<Rightarrow> py_error + json" where
  "item d k = (case map_of d k of None \<Rightarrow> Inl (KeyError k) | Some v \<Rightarrow> Inr v)"

text \<open>\<^verbatim>\<open>v[k]\<close> with a string key on any payload value: only a \<^verbatim>\<open>dict\<close> can be
  subscripted by a string, every other value raises \<^verbatim>\<open>TypeError\<close>.\<close>

definition getitem :: "json \<Rightarrow> string \<Rightarrow> py_error + json" where
  "getitem v k = (case v of JObj d \<Rightarrow> item d k | _ \<Rightarrow> Inl TypeError)"

text \<open>\<^verbatim>\<open>data[k1][k2]\<close>.\<close>

definition item2 :: "dict \<Rightarrow> string \<Rightarrow> string \<Rightarrow> py_error + json" where
  "item2 d k1 k2 = bnd (item d k1) (\<lambda>v. getitem v k2)"

text \<open>\<^verbatim>\<open>data.get(k)\<close> on a \<^verbatim>\<open>dict\<close>: the value, or \<^verbatim>\<open>None\<close> when the key is missing.\<close>

definition dict_get :: "dict \<Rightarrow> string \<Rightarrow> json" where
  "dict_get d k = (case map_of d k of None \<Rightarrow> JNull | Some v \<Rightarrow> v)"

text \<open>\<^verbatim>\<open>d[k] = v\<close>: an existing key keeps its position, a new key goes to the end.\<close>

fun setitem :: "('k \<times> 'v) list \<Rightarrow> 'k \<Rightarrow> 'v \<Rightarrow> ('k \<times> 'v) list" where
  "setitem [] k v = [(k, v)]"
| "setitem ((k', v') # d) k v = (if k' = k then (k, v) # d else (k', v') # setitem d k v)"

text \<open>Python's truth value of a payload value.\<close>

fun truthy :: "json \<Rightarrow> bool" where
  "truthy JNull = False"
| "truthy (JBool b) = b"
| "truthy (JInt n) = (n \<noteq> 0)"
| "truthy (JStr s) = (s \<noteq> [])"
| "truthy (JList xs) = (xs \<noteq> [])"
| "truthy (JObj d) = (d \<noteq> [])"

text \<open>Iterating over a payload value in a comprehension: the elements of a list, the
  one-character strings of a string, the keys of a \<^verbatim>\<open>dict\<close>; \<^verbatim>\<open>None\<close>, booleans and
  integers are not iterable.\<close>

definition elements :: "json \<Rightarrow> py_error + json list" where
  "elements v =
     (case v of
        JList xs \<Rightarrow> Inr xs
      | JStr s \<Rightarrow> Inr (map (\<lambda>c. JStr [c]) s)
      | JObj d \<Rightarrow> Inr (map (\<lambda>(k, _). JStr k) d)
      | _ \<Rightarrow> Inl TypeError)"

text \<open>A list comprehension \<^verbatim>\<open>[f(x) for x in xs]\<close>: left to right, stopping at the first
  element whose construction raises.\<close>

fun comprehension :: "('a \<Rightarrow> py_error + 'b) \<Rightarrow> 'a list \<Rightarrow> py_error + 'b list" where
  "comprehension f [] = Inr []"
| "comprehension f (x # xs) =
     bnd (f x) (\<lambda>y. bnd (comprehension f xs) (\<lambda>ys. Inr (y # ys)))"






text \<open>\<^verbatim>\<open>s.split(c)\<close> for a one-character separator, and \<^verbatim>\<open>v.split(".")[0]\<close> on a
  payload value: only a string has the method.\<close>

fun split_py :: "char \<Rightarrow> string \<Rightarrow> string list" where
  "split_py c [] = [[]]"
| "split_py c (x # xs) =
     (if x = c then [] # split_py c xs
      else (case split_py c xs of [] \<Rightarrow> [[x]] | w # ws \<Rightarrow> (x # w) # ws))"

definition split_first :: "char \<Rightarrow> json \<Rightarrow> py_error + string" where
  "split_first c v =
     (case v of
        JStr s \<Rightarrow> (case split_py c s of [] \<Rightarrow> Inl IndexError | w # _ \<Rightarrow> Inr w)
      | _ \<Rightarrow> Inl (AttributeError ''split''))"

text \<open>\<^verbatim>\<open>int(v)\<close>: an integer is itself, a boolean is 0 or 1, a string is stripped of
  surrounding white space and read as an optional sign and decimal digits, single
  underscores allowed between digits (ASCII digits and white space only). A string with
  more digits than the interpreter's limit for conversions, 4300 by default, is refused
  with \<^verbatim>\<open>ValueError\<close>. Payload values have no floating-point constructor here.\<close>

definition int_max_str_digits :: nat where
  "int_max_str_digits = 4300"

definition is_space :: "char \<Rightarrow> bool" where
  "is_space c = ((of_char c :: nat) \<in> {9, 10, 11, 12, 13, 28, 29, 30, 31, 32})"

definition is_digit :: "char \<Rightarrow> bool" where
  "is_digit c = (48 \<le> (of_char c :: nat) \<and> (of_char c :: nat) \<le> 57)"

definition strip :: "string \<Rightarrow> string" where
  "strip s = rev (dropWhile is_space (rev (dropWhile is_space s)))"

fun digits_ok :: "string \<Rightarrow> bool" where
  "digits_ok [] = False"
| "digits_ok [c] = is_digit c"
| "digits_ok (c # d # cs) =
     (is_digit c \<and> (if d = CHR ''_'' then digits_ok cs else digits_ok (d # cs)))"

definition digits_value :: "string \<Rightarrow> int" where
  "digits_value s = foldl (\<lambda>a c. 10 * a + (int (of_char c) - 48)) 0 s"

definition int_of_str :: "string \<Rightarrow> py_error + int" where
  "int_of_str s =
     (let t = strip s;
          neg = (t \<noteq> [] \<and> hd t = CHR ''-'');
          body = (if t \<noteq> [] \<and> (hd t = CHR ''-'' \<or> hd t = CHR ''+'') then tl t else t)
      in if digits_ok body
            \<and> length (filter (\<lambda>c. c \<noteq> CHR ''_'') body) \<le> int_max_str_digits
         then Inr ((if neg then - 1 else 1) * digits_value (filter (\<lambda>c. c \<noteq> CHR ''_'') body))
         else Inl ValueError)"

definition py_int :: "json \<Rightarrow> py_error + int" where
  "py_int v =
     (case v of
        JInt n \<Rightarrow> Inr n
      | JBool b \<Rightarrow> Inr (if b then 1 else 0)
      | JStr s \<Rightarrow> int_of_str s
      | _ \<Rightarrow> Inl TypeError)"

text \<open>
  A Python \<^verbatim>\<open>float\<close> is an IEEE 754 double. The model writes a double as a pair
  \<open>(m, s)\<close> of integers that denotes \<open>m * 2 ^ s\<close>. \<^verbatim>\<open>n / d\<close> on integers is the
  true quotient rounded to the nearest double, a tie going to the even significand: with
  \<open>2 ^ e \<le> |n / d| < 2 ^ (e + 1)\<close> the doubles around the quotient are the multiples of
  \<open>2 ^ (e - 52)\<close>, or of \<open>2 ^ - 1074\<close> in the subnormal range. A result of magnitude
  \<open>2 ^ 1024\<close> or more raises \<^verbatim>\<open>OverflowError\<close>, and \<open>d = 0\<close> raises
  \<^verbatim>\<open>ZeroDivisionError\<close>.
\<close>

type_synonym double = "int \<times> int"

fun bit_length :: "nat \<Rightarrow> nat" where
  "bit_length n = (if n = 0 then 0 else Suc (bit_length (n div 2)))"

declare bit_length.simps [simp del]

text \<open>\<open>a / b\<close> rounded to the nearest integer, a tie going to the even one, for
  \<open>0 < b\<close>.\<close>

definition round_half_even :: "int \<Rightarrow> int \<Rightarrow> int" where
  "round_half_even a b =
     (let q = a div b; r = a mod b
      in if 2 * r < b then q else if b < 2 * r then q + 1 else if even q then q else q + 1)"

text \<open>\<open>2 ^ c \<le> a / b\<close>, for \<open>0 < b\<close>.\<close>

definition ge_pow2 :: "int \<Rightarrow> int \<Rightarrow> int \<Rightarrow> bool" where
  "ge_pow2 a b c = (if 0 \<le> c then b * 2 ^ nat c \<le> a else b \<le> a * 2 ^ nat (- c))"

definition py_truediv :: "int \<Rightarrow> int \<Rightarrow> py_error + double" where
  "py_truediv n d =
     (if d = 0 then Inl ZeroDivisionError
      else if n = 0 then Inr (0, 0)
      else
        let a = \<bar>n\<bar>; b = \<bar>d\<bar>;
            c = int (bit_length (nat a)) - int (bit_length (nat b));
            e = (if ge_pow2 a b c then c else c - 1);
            s = max (e - 52) (- 1074);
            m = (if s \<le> 0 then round_half_even (a * 2 ^ nat (- s)) b
                 else round_half_even a (b * 2 ^ nat s))
        in if 0 \<le> s \<and> 2 ^ 1024 \<le> m * 2 ^ nat s then Inl OverflowError
           else Inr (if (n < 0) \<noteq> (d < 0) then - m else m, s))"

text \<open>\<^verbatim>\<open>round(x)\<close> of a float, with one argument: the nearest integer, a tie going to
  the even one.\<close>

definition py_round :: "double \<Rightarrow> int" where
  "py_round x =
     (case x of (m, s) \<Rightarrow>
        if 0 \<le> s then m * 2 ^ nat s else round_half_even m (2 ^ nat (- s)))"

section \<open>Collaborators outside this module\<close>

text \<open>
  The constructors call code that is not part of \<^verbatim>\<open>models.py\<close>: \<^verbatim>\<open>parse_timestamp\<close> of
  \<^verbatim>\<open>twitchio/utils.py\<close>, the class \<^verbatim>\<open>PartialUser\<close> of \<^verbatim>\<open>twitchio/user.py\<close>, and the standard
  library's \<^verbatim>\<open>datetime.datetime.fromisoformat\<close> and \<^verbatim>\<open>float\<close>. They are parameters of the
  model: \<open>'t\<close> is the type of time values, \<open>'u\<close> of user objects, \<open>'f\<close> of floats. Each
  may raise. The \<^verbatim>\<open>http\<close> handle that the constructors pass on is stored and never used
  during construction, so it is left out.
\<close>

record ('t, 'u, 'f) lib =
  parse_timestamp :: "json \<Rightarrow> py_error + 't"
  fromisoformat :: "string \<Rightarrow> py_error + 't"
  PartialUser :: "json \<Rightarrow> json \<Rightarrow> py_error + 'u"
  py_float :: "json \<Rightarrow> py_error + 'f"

text \<open>\<^verbatim>\<open>supplied or PartialUser(...)\<close>: a supplied user object is returned as it is and the
  right-hand side is not evaluated; with \<^verbatim>\<open>None\<close> the right-hand side is the result. (User
  objects are plain objects, hence true.)\<close>

definition or_else :: "'u option \<Rightarrow> (py_error + 'u) \<Rightarrow> py_error + 'u" where
  "or_else supplied fallback = (case supplied of Some u \<Rightarrow> Inr u | None \<Rightarrow> fallback)"

text \<open>\<^verbatim>\<open>PartialUser(http, data[k1], data[k2])\<close>: both arguments are looked up, in order,
  before the call.\<close>

definition user_from ::
  "('t, 'u, 'f) lib \<Rightarrow> dict \<Rightarrow> string \<Rightarrow> string \<Rightarrow> py_error + 'u" where
  "user_from L data k1 k2 =
     bnd (item data k1) (\<lambda>i. bnd (item data k2) (\<lambda>n. PartialUser L i n))"

definition user_from2 ::
  "('t, 'u, 'f) lib \<Rightarrow> dict \<Rightarrow> string \<Rightarrow> string \<Rightarrow> string \<Rightarrow> py_error + 'u" where
  "user_from2 L data k0 k1 k2 =
     bnd (item2 data k0 k1) (\<lambda>i. bnd (item2 data k0 k2) (\<lambda>n. PartialUser L i n))"

text \<open>\<^verbatim>\<open>parse_timestamp(data[k])\<close>.\<close>

definition time_at :: "('t, 'u, 'f) lib \<Rightarrow> dict \<Rightarrow> string \<Rightarrow> py_error + 't" where
  "time_at L data k = bnd (item data k) (parse_timestamp L)"

section \<open>Events\<close>

record ('t, 'u, 'f) BanEvent =
  ban_id :: json
  ban_type :: json
  ban_timestamp :: 't
  ban_version :: 'f
  ban_reason :: json
  ban_broadcaster :: 'u
  ban_user :: 'u
  ban_moderator :: 'u
  ban_expires_at :: "'t option"

definition BanEvent_init ::
  "('t, 'u, 'f) lib \<Rightarrow> dict \<Rightarrow> 'u option \<Rightarrow> py_error + ('t, 'u, 'f) BanEvent" where
  "BanEvent_init L data broadcaster =
     bnd (item data ''id'') (\<lambda>i.
     bnd (item data ''event_type'') (\<lambda>ty.
     bnd (time_at L data ''event_timestamp'') (\<lambda>ts.
     bnd (bnd (item data ''version'') (py_float L)) (\<lambda>ver.
     bnd (item2 data ''event_data'' ''reason'') (\<lambda>reason.
     bnd (or_else broadcaster
            (user_from2 L data ''event_data'' ''broadcaster_id'' ''broadcaster_name'')) (\<lambda>b.
     bnd (user_from2 L data ''event_data'' ''user_id'' ''user_name'') (\<lambda>u.
     bnd (user_from2 L data ''event_data'' ''moderator_id'' ''moderator_name'') (\<lambda>m.
     bnd (bnd (item2 data ''event_data'' ''expires_at'') (\<lambda>c.
            if truthy c
            then bnd (item2 data ''event_data'' ''expires_at'') (\<lambda>v.
                 bnd (parse_timestamp L v) (\<lambda>t. Inr (Some t)))
            else Inr None)) (\<lambda>ex.
     Inr \<lparr> ban_id = i, ban_type = ty, ban_timestamp = ts, ban_version = ver,
           ban_reason = reason, ban_broadcaster = b, ban_user = u, ban_moderator = m,
           ban_expires_at = ex \<rparr>)))))))))"

record ('t, 'u) FollowEvent =
  from_user :: 'u
  to_user :: 'u
  followed_at :: 't

definition FollowEvent_init ::
  "('t, 'u, 'f) lib \<Rightarrow> dict \<Rightarrow> 'u option \<Rightarrow> 'u option \<Rightarrow> py_error + ('t, 'u) FollowEvent" where
  "FollowEvent_init L data from' to =
     bnd (or_else from' (user_from L data ''from_id'' ''from_name'')) (\<lambda>f.
     bnd (or_else to (user_from L data ''to_id'' ''to_name'')) (\<lambda>t.
     bnd (time_at L data ''followed_at'') (\<lambda>fa.
     Inr \<lparr> from_user = f, to_user = t, followed_at = fa \<rparr>)))"

record 'u SubscriptionEvent =
  sub_broadcaster :: 'u
  sub_user :: 'u
  sub_tier :: int
  sub_plan_name :: json
  sub_gift :: json

definition SubscriptionEvent_init ::
  "('t, 'u, 'f) lib \<Rightarrow> dict \<Rightarrow> 'u option \<Rightarrow> 'u option \<Rightarrow> py_error + 'u SubscriptionEvent" where
  "SubscriptionEvent_init L data broadcaster user =
     bnd (or_else broadcaster (user_from L data ''broadcaster_id'' ''broadcaster_name'')) (\<lambda>b.
     bnd (or_else user (user_from L data ''user_id'' ''user_name'')) (\<lambda>u.
     bnd (bnd (bnd (item data ''tier'') py_int) (\<lambda>n. py_truediv n 1000)) (\<lambda>q.
     bnd (item data ''plan_name'') (\<lambda>pn.
     bnd (item data ''is_gift'') (\<lambda>g.
     Inr \<lparr> sub_broadcaster = b, sub_user = u, sub_tier = py_round q,
           sub_plan_name = pn, sub_gift = g \<rparr>)))))"

record 't Marker =
  marker_id :: json
  marker_created_at :: 't
  marker_description :: json
  marker_position :: json
  marker_url :: json

definition Marker_init :: "('t, 'u, 'f) lib \<Rightarrow> dict \<Rightarrow> py_error + 't Marker" where
  "Marker_init L data =
     bnd (item data ''id'') (\<lambda>i.
     bnd (time_at L data ''created_at'') (\<lambda>c.
     bnd (item data ''description'') (\<lambda>d.
     bnd (item data ''position_seconds'') (\<lambda>p.
     Inr \<lparr> marker_id = i, marker_created_at = c, marker_description = d,
           marker_position = p, marker_url = dict_get data ''URL'' \<rparr>))))"

record ActiveExtension =
  aext_active :: json
  aext_id :: json
  aext_version :: json
  aext_name :: json
  aext_x :: json
  aext_y :: json

definition ActiveExtension_init :: "dict \<Rightarrow> py_error + ActiveExtension" where
  "ActiveExtension_init data =
     bnd (item data ''active'') (\<lambda>a.
     Inr \<lparr> aext_active = a, aext_id = dict_get data ''id'',
           aext_version = dict_get data ''version'', aext_name = dict_get data ''name'',
           aext_x = dict_get data ''x'', aext_y = dict_get data ''y'' \<rparr>)"

section \<open>Video, Clip and Stream\<close>

record ('t, 'u) Video =
  video_id :: int
  video_user :: 'u
  video_title :: json
  video_description :: json
  video_created_at :: 't
  video_published_at :: 't
  video_url :: json
  video_thumbnail_url :: json
  video_viewable :: json
  video_view_count :: json
  video_language :: json
  video_type :: json
  video_duration :: json

definition Video_init ::
  "('t, 'u, 'f) lib \<Rightarrow> dict \<Rightarrow> 'u option \<Rightarrow> py_error + ('t, 'u) Video" where
  "Video_init L data user =
     bnd (bnd (item data ''id'') py_int) (\<lambda>i.
     bnd (or_else user (user_from L data ''user_id'' ''user_name'')) (\<lambda>u.
     bnd (item data ''title'') (\<lambda>ti.
     bnd (item data ''description'') (\<lambda>de.
     bnd (time_at L data ''created_at'') (\<lambda>cr.
     bnd (time_at L data ''published_at'') (\<lambda>pu.
     bnd (item data ''url'') (\<lambda>ur.
     bnd (item data ''thumbnail_url'') (\<lambda>th.
     bnd (item data ''viewable'') (\<lambda>vi.
     bnd (item data ''view_count'') (\<lambda>vc.
     bnd (item data ''language'') (\<lambda>la.
     bnd (item data ''type'') (\<lambda>ty.
     bnd (item data ''duration'') (\<lambda>du.
     Inr \<lparr> video_id = i, video_user = u, video_title = ti, video_description = de,
           video_created_at = cr, video_published_at = pu, video_url = ur,
           video_thumbnail_url = th, video_viewable = vi, video_view_count = vc,
           video_language = la, video_type = ty, video_duration = du \<rparr>)))))))))))))"

record ('t, 'u) Clip =
  clip_id :: json
  clip_url :: json
  clip_embed_url :: json
  clip_broadcaster :: 'u
  clip_creator :: 'u
  clip_video_id :: json
  clip_game_id :: json
  clip_language :: json
  clip_title :: json
  clip_views :: json
  clip_created_at :: 't
  clip_thumbnail_url :: json

definition Clip_init :: "('t, 'u, 'f) lib \<Rightarrow> dict \<Rightarrow> py_error + ('t, 'u) Clip" where
  "Clip_init L data =
     bnd (item data ''id'') (\<lambda>i.
     bnd (item data ''url'') (\<lambda>ur.
     bnd (item data ''embed_url'') (\<lambda>em.
     bnd (user_from L data ''broadcaster_id'' ''broadcaster_name'') (\<lambda>b.
     bnd (user_from L data ''creator_id'' ''creator_name'') (\<lambda>c.
     bnd (item data ''video_id'') (\<lambda>vi.
     bnd (item data ''game_id'') (\<lambda>ga.
     bnd (item data ''language'') (\<lambda>la.
     bnd (item data ''title'') (\<lambda>ti.
     bnd (item data ''view_count'') (\<lambda>vc.
     bnd (time_at L data ''created_at'') (\<lambda>cr.
     bnd (item data ''thumbnail_url'') (\<lambda>th.
     Inr \<lparr> clip_id = i, clip_url = ur, clip_embed_url = em, clip_broadcaster = b,
           clip_creator = c, clip_video_id = vi, clip_game_id = ga, clip_language = la,
           clip_title = ti, clip_views = vc, clip_created_at = cr,
           clip_thumbnail_url = th \<rparr>))))))))))))"

record ('t, 'u) Stream =
  stream_id :: json
  stream_user :: 'u
  stream_game_id :: json
  stream_game_name :: json
  stream_type :: json
  stream_title :: json
  stream_viewer_count :: json
  stream_started_at :: 't
  stream_language :: json
  stream_thumbnail_url :: json
  stream_tag_ids :: json
  stream_is_mature :: json

definition Stream_init :: "('t, 'u, 'f) lib \<Rightarrow> dict \<Rightarrow> py_error + ('t, 'u) Stream" where
  "Stream_init L data =
     bnd (item data ''id'') (\<lambda>i.
     bnd (user_from L data ''user_id'' ''user_name'') (\<lambda>u.
     bnd (item data ''game_id'') (\<lambda>gi.
     bnd (item data ''game_name'') (\<lambda>gn.
     bnd (item data ''type'') (\<lambda>ty.
     bnd (item data ''title'') (\<lambda>ti.
     bnd (item data ''viewer_count'') (\<lambda>vc.
     bnd (time_at L data ''started_at'') (\<lambda>st.
     bnd (item data ''language'') (\<lambda>la.
     bnd (item data ''thumbnail_url'') (\<lambda>th.
     bnd (item data ''tag_ids'') (\<lambda>tg.
     bnd (item data ''is_mature'') (\<lambda>ma.
     Inr \<lparr> stream_id = i, stream_user = u, stream_game_id = gi, stream_game_name = gn,
           stream_type = ty, stream_title = ti, stream_viewer_count = vc,
           stream_started_at = st, stream_language = la, stream_thumbnail_url = th,
           stream_tag_ids = tg, stream_is_mature = ma \<rparr>))))))))))))"

section \<open>Predictions\<close>

text \<open>
  A class with \<^verbatim>\<open>__slots__\<close> and no \<^verbatim>\<open>__dict__\<close> accepts an assignment to \<^verbatim>\<open>self.name\<close>
  only when \<^verbatim>\<open>name\<close> is one of its slots; any other name raises \<^verbatim>\<open>AttributeError\<close>. Every
  class of the module lists each attribute its constructor assigns, except \<^verbatim>\<open>Predictor\<close>,
  whose slots are those of \<^verbatim>\<open>PredictionOutcome\<close>. The assignments of the other classes
  cannot fail and are the fields of a record; those of \<^verbatim>\<open>Predictor\<close> are checked.
\<close>

definition setattr_slots :: "string list \<Rightarrow> string \<Rightarrow> py_error + unit" where
  "setattr_slots slots name = (if name \<in> set slots then Inr () else Inl (AttributeError name))"

definition Predictor_slots :: "string list" where
  "Predictor_slots = [''outcome_id'', ''title'', ''channel_points'', ''color'']"

record 'u Predictor =
  channel_points_used :: json
  channel_points_won :: json
  predictor_user :: 'u

definition Predictor_init :: "('t, 'u, 'f) lib \<Rightarrow> json \<Rightarrow> py_error + 'u Predictor" where
  "Predictor_init L data =
     bnd (getitem data ''channel_points_used'') (\<lambda>used.
     bnd (setattr_slots Predictor_slots ''channel_points_used'') (\<lambda>_.
     bnd (getitem data ''channel_points_won'') (\<lambda>won.
     bnd (setattr_slots Predictor_slots ''channel_points_won'') (\<lambda>_.
     bnd (bnd (bnd (getitem data ''user'') (\<lambda>v. getitem v ''id'')) (\<lambda>i.
          bnd (bnd (getitem data ''user'') (\<lambda>v. getitem v ''name'')) (\<lambda>n.
          PartialUser L i n))) (\<lambda>u.
     bnd (setattr_slots Predictor_slots ''user'') (\<lambda>_.
     Inr \<lparr> channel_points_used = used, channel_points_won = won,
           predictor_user = u \<rparr>))))))"

record 'u PredictionOutcome =
  outcome_id :: json
  outcome_title :: json
  outcome_channel_points :: json
  outcome_color :: json
  outcome_users :: json
  top_predictors :: "'u Predictor list option"

definition PredictionOutcome_init ::
  "('t, 'u, 'f) lib \<Rightarrow> json \<Rightarrow> py_error + 'u PredictionOutcome" where
  "PredictionOutcome_init L data =
     bnd (getitem data ''id'') (\<lambda>i.
     bnd (getitem data ''title'') (\<lambda>ti.
     bnd (getitem data ''channel_points'') (\<lambda>cp.
     bnd (getitem data ''color'') (\<lambda>co.
     bnd (getitem data ''users'') (\<lambda>us.
     bnd (bnd (getitem data ''top_predictors'') (\<lambda>c.
            if truthy c
            then bnd (getitem data ''top_predictors'') (\<lambda>v.
                 bnd (elements v) (\<lambda>xs.
                 bnd (comprehension (Predictor_init L) xs) (\<lambda>ps. Inr (Some ps))))
            else Inr None)) (\<lambda>tp.
     Inr \<lparr> outcome_id = i, outcome_title = ti, outcome_channel_points = cp,
           outcome_color = co, outcome_users = us, top_predictors = tp \<rparr>))))))"

text \<open>\<^verbatim>\<open>Prediction._parse_time(data, field)\<close>.\<close>

definition Prediction_parse_time ::
  "('t, 'u, 'f) lib \<Rightarrow> dict \<Rightarrow> string \<Rightarrow> py_error + 't option" where
  "Prediction_parse_time L data field =
     (if field \<notin> set (map fst data) then Inr None
      else bnd (item data field) (\<lambda>c.
           if c = JNull then Inr None
           else bnd (item data field) (\<lambda>v.
                bnd (split_first (CHR ''.'') v) (\<lambda>time.
                bnd (fromisoformat L time) (\<lambda>t. Inr (Some t))))))"

record ('t, 'u) Prediction =
  prediction_user :: 'u
  prediction_id :: json
  prediction_title :: json
  winning_outcome_id :: json
  outcomes :: "'u PredictionOutcome list"
  prediction_window :: json
  prediction_status :: json
  prediction_created_at :: "'t option"
  prediction_ended_at :: "'t option"
  prediction_locked_at :: "'t option"

definition Prediction_init ::
  "('t, 'u, 'f) lib \<Rightarrow> dict \<Rightarrow> py_error + ('t, 'u) Prediction" where
  "Prediction_init L data =
     bnd (user_from L data ''broadcaster_id'' ''broadcaster_name'') (\<lambda>u.
     bnd (item data ''id'') (\<lambda>i.
     bnd (item data ''title'') (\<lambda>ti.
     bnd (item data ''winning_outcome_id'') (\<lambda>wo.
     bnd (bnd (item data ''outcomes'') (\<lambda>v.
          bnd (elements v) (comprehension (PredictionOutcome_init L)))) (\<lambda>os.
     bnd (item data ''prediction_window'') (\<lambda>pw.
     bnd (item data ''status'') (\<lambda>st.
     bnd (Prediction_parse_time L data ''created_at'') (\<lambda>cr.
     bnd (Prediction_parse_time L data ''ended_at'') (\<lambda>en.
     bnd (Prediction_parse_time L data ''locked_at'') (\<lambda>lo.
     Inr \<lparr> prediction_user = u, prediction_id = i, prediction_title = ti,
           winning_outcome_id = wo, outcomes = os, prediction_window = pw,
           prediction_status = st, prediction_created_at = cr, prediction_ended_at = en,
           prediction_locked_at = lo \<rparr>))))))))))"

section \<open>Schedules\<close>

record ScheduleCategory =
  category_id :: json
  category_name :: json

definition ScheduleCategory_init :: "json \<Rightarrow> py_error + ScheduleCategory" where
  "ScheduleCategory_init data =
     bnd (getitem data ''id'') (\<lambda>i.
     bnd (getitem data ''name'') (\<lambda>n.
     Inr \<lparr> category_id = i, category_name = n \<rparr>))"

record 't ScheduleVacation =
  vacation_start_time :: 't
  vacation_end_time :: 't

definition ScheduleVacation_init ::
  "('t, 'u, 'f) lib \<Rightarrow> json \<Rightarrow> py_error + 't ScheduleVacation" where
  "ScheduleVacation_init L data =
     bnd (bnd (getitem data ''start_time'') (parse_timestamp L)) (\<lambda>s.
     bnd (bnd (getitem data ''end_time'') (parse_timestamp L)) (\<lambda>e.
     Inr \<lparr> vacation_start_time = s, vacation_end_time = e \<rparr>))"

record 't ScheduleSegment =
  segment_id :: json
  segment_start_time :: 't
  segment_end_time :: 't
  segment_title :: json
  segment_canceled_until :: "'t option"
  segment_category :: "ScheduleCategory option"
  segment_is_recurring :: json

definition ScheduleSegment_init ::
  "('t, 'u, 'f) lib \<Rightarrow> json \<Rightarrow> py_error + 't ScheduleSegment" where
  "ScheduleSegment_init L data =
     bnd (getitem data ''id'') (\<lambda>i.
     bnd (bnd (getitem data ''start_time'') (parse_timestamp L)) (\<lambda>s.
     bnd (bnd (getitem data ''end_time'') (parse_timestamp L)) (\<lambda>e.
     bnd (getitem data ''title'') (\<lambda>ti.
     bnd (bnd (getitem data ''canceled_until'') (\<lambda>c.
            if truthy c
            then bnd (getitem data ''canceled_until'') (\<lambda>v.
                 bnd (parse_timestamp L v) (\<lambda>t. Inr (Some t)))
            else Inr None)) (\<lambda>cu.
     bnd (bnd (getitem data ''category'') (\<lambda>c.
            if truthy c
            then bnd (getitem data ''category'') (\<lambda>v.
                 bnd (ScheduleCategory_init v) (\<lambda>cat. Inr (Some cat)))
            else Inr None)) (\<lambda>ca.
     bnd (getitem data ''is_recurring'') (\<lambda>re.
     Inr \<lparr> segment_id = i, segment_start_time = s, segment_end_time = e,
           segment_title = ti, segment_canceled_until = cu, segment_category = ca,
           segment_is_recurring = re \<rparr>)))))))"

record ('t, 'u) Schedule =
  segments :: "'t ScheduleSegment list"
  schedule_user :: 'u
  vacation :: "'t ScheduleVacation option"

definition Schedule_init :: "('t, 'u, 'f) lib \<Rightarrow> dict \<Rightarrow> py_error + ('t, 'u) Schedule" where
  "Schedule_init L data =
     bnd (bnd (item2 data ''data'' ''segments'') (\<lambda>v.
          bnd (elements v) (comprehension (ScheduleSegment_init L)))) (\<lambda>segs.
     bnd (user_from2 L data ''data'' ''broadcaster_id'' ''broadcaster_login'') (\<lambda>u.
     bnd (bnd (item2 data ''data'' ''vacation'') (\<lambda>c.
            if truthy c
            then bnd (item2 data ''data'' ''vacation'') (\<lambda>v.
                 bnd (ScheduleVacation_init L v) (\<lambda>vac. Inr (Some vac)))
            else Inr None)) (\<lambda>va.
     Inr \<lparr> segments = segs, schedule_user = u, vacation = va \<rparr>)))"

section \<open>The remaining records\<close>

text \<open>A constructor that a comprehension applies to the elements of a list receives
  whatever the list holds. Each constructor below starts by subscripting its argument with
  a string, which raises \<^verbatim>\<open>TypeError\<close> on anything but a \<^verbatim>\<open>dict\<close>.\<close>

definition on_dict :: "(dict \<Rightarrow> py_error + 'a) \<Rightarrow> json \<Rightarrow> py_error + 'a" where
  "on_dict f v = (case v of JObj d \<Rightarrow> f d | _ \<Rightarrow> Inl TypeError)"

text \<open>\<^verbatim>\<open>parse_timestamp(data[k].split(" ")[0])\<close>.\<close>

definition date_at :: "('t, 'u, 'f) lib \<Rightarrow> dict \<Rightarrow> string \<Rightarrow> py_error + 't" where
  "date_at L data k =
     bnd (item data k) (\<lambda>v.
     bnd (split_first (CHR '' '') v) (\<lambda>w. parse_timestamp L (JStr w)))"

text \<open>\<^verbatim>\<open>datetime.datetime.fromisoformat(v)\<close> on a payload value: the argument must be a
  string.\<close>

definition fromisoformat_value :: "('t, 'u, 'f) lib \<Rightarrow> json \<Rightarrow> py_error + 't" where
  "fromisoformat_value L v = (case v of JStr s \<Rightarrow> fromisoformat L s | _ \<Rightarrow> Inl TypeError)"

text \<open>\<^verbatim>\<open>BitLeaderboardUser\<close> is a class of \<^verbatim>\<open>twitchio/user.py\<close>; its constructor is the
  parameter \<open>leader\<close>.\<close>

record ('t, 'b) BitsLeaderboard =
  leaderboard_started_at :: 't
  leaderboard_ended_at :: 't
  leaders :: "'b list"

definition BitsLeaderboard_init ::
  "('t, 'u, 'f) lib \<Rightarrow> (json \<Rightarrow> py_error + 'b) \<Rightarrow> dict
     \<Rightarrow> py_error + ('t, 'b) BitsLeaderboard" where
  "BitsLeaderboard_init L leader data =
     bnd (bnd (item2 data ''date_range'' ''started_at'') (fromisoformat_value L)) (\<lambda>s.
     bnd (bnd (item2 data ''date_range'' ''ended_at'') (fromisoformat_value L)) (\<lambda>e.
     bnd (bnd (item data ''data'') (\<lambda>v. bnd (elements v) (comprehension leader))) (\<lambda>ls.
     Inr \<lparr> leaderboard_started_at = s, leaderboard_ended_at = e, leaders = ls \<rparr>)))"

record CheerEmoteTier =
  tier_min_bits :: json
  tier_id :: json
  tier_colour :: json
  tier_images :: json
  tier_can_cheer :: json
  tier_show_in_bits_card :: json

definition CheerEmoteTier_init :: "dict \<Rightarrow> py_error + CheerEmoteTier" where
  "CheerEmoteTier_init data =
     bnd (item data ''min_bits'') (\<lambda>mb.
     bnd (item data ''id'') (\<lambda>i.
     bnd (item data ''colour'') (\<lambda>co.
     bnd (item data ''images'') (\<lambda>im.
     bnd (item data ''can_cheer'') (\<lambda>cc.
     bnd (item data ''show_in_bits_card'') (\<lambda>sh.
     Inr \<lparr> tier_min_bits = mb, tier_id = i, tier_colour = co, tier_images = im,
           tier_can_cheer = cc, tier_show_in_bits_card = sh \<rparr>))))))"

record 't CheerEmote =
  emote_prefix :: json
  emote_tiers :: "CheerEmoteTier list"
  emote_type :: json
  emote_order :: json
  emote_last_updated :: 't
  emote_charitable :: json

definition CheerEmote_init :: "('t, 'u, 'f) lib \<Rightarrow> dict \<Rightarrow> py_error + 't CheerEmote" where
  "CheerEmote_init L data =
     bnd (item data ''prefix'') (\<lambda>pr.
     bnd (bnd (item data ''tiers'') (\<lambda>v.
          bnd (elements v) (comprehension (on_dict CheerEmoteTier_init)))) (\<lambda>ts.
     bnd (item data ''type'') (\<lambda>ty.
     bnd (item data ''order'') (\<lambda>od.
     bnd (time_at L data ''last_updated'') (\<lambda>lu.
     bnd (item data ''is_charitable'') (\<lambda>ch.
     Inr \<lparr> emote_prefix = pr, emote_tiers = ts, emote_type = ty, emote_order = od,
           emote_last_updated = lu, emote_charitable = ch \<rparr>))))))"

record 'u HypeTrainContribution =
  contribution_total :: json
  contribution_type :: json
  contribution_user :: 'u

text \<open>\<^verbatim>\<open>PartialUser(http, id=data["user"], name=None)\<close>.\<close>

definition HypeTrainContribution_init ::
  "('t, 'u, 'f) lib \<Rightarrow> dict \<Rightarrow> py_error + 'u HypeTrainContribution" where
  "HypeTrainContribution_init L data =
     bnd (item data ''total'') (\<lambda>to.
     bnd (item data ''type'') (\<lambda>ty.
     bnd (bnd (item data ''user'') (\<lambda>i. PartialUser L i JNull)) (\<lambda>u.
     Inr \<lparr> contribution_total = to, contribution_type = ty, contribution_user = u \<rparr>)))"

record ('t, 'u) HypeTrainEvent =
  hype_id :: json
  hype_event_id :: json
  hype_type :: json
  hype_version :: json
  hype_broadcaster :: 'u
  hype_timestamp :: 't
  hype_cooldown_end_time :: 't
  hype_expiry :: 't
  hype_started_at :: 't
  hype_last_contribution :: "'u HypeTrainContribution"
  hype_level :: json
  hype_top_contributions :: "'u HypeTrainContribution list"
  hype_contributions_total :: json
  hype_goal :: json

definition HypeTrainEvent_init ::
  "('t, 'u, 'f) lib \<Rightarrow> dict \<Rightarrow> py_error + ('t, 'u) HypeTrainEvent" where
  "HypeTrainEvent_init L data =
     bnd (item data ''id'') (\<lambda>i.
     bnd (item2 data ''event_data'' ''id'') (\<lambda>ei.
     bnd (item data ''event_type'') (\<lambda>ty.
     bnd (item data ''version'') (\<lambda>ve.
     bnd (bnd (item2 data ''event_data'' ''broadcaster_id'') (\<lambda>b. PartialUser L b JNull)) (\<lambda>br.
     bnd (time_at L data ''event_timestamp'') (\<lambda>ts.
     bnd (bnd (item2 data ''event_data'' ''cooldown_end_time'') (parse_timestamp L)) (\<lambda>co.
     bnd (time_at L data ''expires_at'') (\<lambda>ex.
     bnd (bnd (item2 data ''event_data'' ''started_at'') (parse_timestamp L)) (\<lambda>st.
     bnd (bnd (item2 data ''event_data'' ''last_contribution'')
            (on_dict (HypeTrainContribution_init L))) (\<lambda>lc.
     bnd (item2 data ''event_data'' ''level'') (\<lambda>le.
     bnd (bnd (item2 data ''event_data'' ''top_contributions'') (\<lambda>v.
          bnd (elements v) (comprehension (on_dict (HypeTrainContribution_init L))))) (\<lambda>tc.
     bnd (item2 data ''event_data'' ''total'') (\<lambda>to.
     bnd (item2 data ''event_data'' ''goal'') (\<lambda>go.
     Inr \<lparr> hype_id = i, hype_event_id = ei, hype_type = ty, hype_version = ve,
           hype_broadcaster = br, hype_timestamp = ts, hype_cooldown_end_time = co,
           hype_expiry = ex, hype_started_at = st, hype_last_contribution = lc,
           hype_level = le, hype_top_contributions = tc, hype_contributions_total = to,
           hype_goal = go \<rparr>))))))))))))))"

record 't VideoMarkers =
  video_markers_id :: json
  markers :: "'t Marker list"

definition VideoMarkers_init :: "('t, 'u, 'f) lib \<Rightarrow> dict \<Rightarrow> py_error + 't VideoMarkers" where
  "VideoMarkers_init L data =
     bnd (item data ''video_id'') (\<lambda>i.
     bnd (bnd (item data ''markers'') (\<lambda>v.
          bnd (elements v) (comprehension (on_dict (Marker_init L))))) (\<lambda>ms.
     Inr \<lparr> video_markers_id = i, markers = ms \<rparr>))"

record Game =
  game_id :: int
  game_name :: json
  game_box_art_url :: json

definition Game_init :: "dict \<Rightarrow> py_error + Game" where
  "Game_init data =
     bnd (bnd (item data ''id'') py_int) (\<lambda>i.
     bnd (item data ''name'') (\<lambda>n.
     bnd (item data ''box_art_url'') (\<lambda>b.
     Inr \<lparr> game_id = i, game_name = n, game_box_art_url = b \<rparr>)))"

text \<open>\<^verbatim>\<open>enums.ModEventEnum\<close> belongs to \<^verbatim>\<open>twitchio/enums.py\<close>; looking a value up in
  it is the parameter \<open>mod_event\<close>. The broadcaster of a \<^verbatim>\<open>ModEvent\<close> is stored as
  given.\<close>

record ('t, 'u, 'm) ModEvent =
  mod_id :: json
  mod_type :: 'm
  mod_timestamp :: 't
  mod_version :: json
  mod_broadcaster :: 'u
  mod_user :: 'u

definition ModEvent_init ::
  "('t, 'u, 'f) lib \<Rightarrow> (json \<Rightarrow> py_error + 'm) \<Rightarrow> dict \<Rightarrow> 'u
     \<Rightarrow> py_error + ('t, 'u, 'm) ModEvent" where
  "ModEvent_init L mod_event data broadcaster =
     bnd (item data ''id'') (\<lambda>i.
     bnd (bnd (item data ''event_type'') mod_event) (\<lambda>ty.
     bnd (time_at L data ''event_timestamp'') (\<lambda>ts.
     bnd (item data ''version'') (\<lambda>ve.
     bnd (user_from2 L data ''event_data'' ''user_id'' ''user_name'') (\<lambda>u.
     Inr \<lparr> mod_id = i, mod_type = ty, mod_timestamp = ts, mod_version = ve,
           mod_broadcaster = broadcaster, mod_user = u \<rparr>)))))"

record AutomodCheckResponse =
  response_id :: json
  response_permitted :: json

definition AutomodCheckResponse_init :: "dict \<Rightarrow> py_error + AutomodCheckResponse" where
  "AutomodCheckResponse_init data =
     bnd (item data ''msg_id'') (\<lambda>i.
     bnd (item data ''is_permitted'') (\<lambda>p.
     Inr \<lparr> response_id = i, response_permitted = p \<rparr>))"

record MaybeActiveExtension =
  mext_id :: json
  mext_version :: json
  mext_name :: json
  mext_can_activate :: json
  mext_types :: json

definition MaybeActiveExtension_init :: "dict \<Rightarrow> py_error + MaybeActiveExtension" where
  "MaybeActiveExtension_init data =
     bnd (item data ''id'') (\<lambda>i.
     bnd (item data ''version'') (\<lambda>v.
     bnd (item data ''name'') (\<lambda>n.
     bnd (item data ''can_activate'') (\<lambda>c.
     bnd (item data ''type'') (\<lambda>t.
     Inr \<lparr> mext_id = i, mext_version = v, mext_name = n, mext_can_activate = c,
           mext_types = t \<rparr>)))))"

record Tag =
  tag_id :: json
  tag_auto :: json
  tag_localization_names :: json
  tag_localization_descriptions :: json

definition Tag_init :: "dict \<Rightarrow> py_error + Tag" where
  "Tag_init data =
     bnd (item data ''tag_id'') (\<lambda>i.
     bnd (item data ''is_auto'') (\<lambda>a.
     bnd (item data ''localization_names'') (\<lambda>n.
     bnd (item data ''localization_descriptions'') (\<lambda>d.
     Inr \<lparr> tag_id = i, tag_auto = a, tag_localization_names = n,
           tag_localization_descriptions = d \<rparr>))))"

record 't WebhookSubscription =
  webhook_callback :: json
  webhook_expires_at :: 't
  webhook_topic :: json

definition WebhookSubscription_init ::
  "('t, 'u, 'f) lib \<Rightarrow> dict \<Rightarrow> py_error + 't WebhookSubscription" where
  "WebhookSubscription_init L data =
     bnd (item data ''callback'') (\<lambda>c.
     bnd (time_at L data ''expired_at'') (\<lambda>e.
     bnd (item data ''topic'') (\<lambda>t.
     Inr \<lparr> webhook_callback = c, webhook_expires_at = e, webhook_topic = t \<rparr>)))"

record 'u ChannelInfo =
  channel_user :: 'u
  channel_game_id :: json
  channel_game_name :: json
  channel_title :: json
  channel_language :: json
  channel_delay :: json

definition ChannelInfo_init :: "('t, 'u, 'f) lib \<Rightarrow> dict \<Rightarrow> py_error + 'u ChannelInfo" where
  "ChannelInfo_init L data =
     bnd (user_from L data ''broadcaster_id'' ''broadcaster_name'') (\<lambda>u.
     bnd (item data ''game_id'') (\<lambda>gi.
     bnd (item data ''game_name'') (\<lambda>gn.
     bnd (item data ''title'') (\<lambda>ti.
     bnd (item data ''broadcaster_language'') (\<lambda>la.
     bnd (item data ''delay'') (\<lambda>de.
     Inr \<lparr> channel_user = u, channel_game_id = gi, channel_game_name = gn,
           channel_title = ti, channel_language = la, channel_delay = de \<rparr>))))))"

record ('t, 'u) Team =
  team_users :: "'u list"
  team_background_image_url :: json
  team_banner :: json
  team_created_at :: 't
  team_updated_at :: 't
  team_info :: json
  team_thumbnail_url :: json
  team_name :: json
  team_display_name :: json
  team_id :: json

text \<open>\<^verbatim>\<open>PartialUser(http, x["user_id"], x["user_login"])\<close> for an element \<^verbatim>\<open>x\<close> of
  \<^verbatim>\<open>data["users"]\<close>.\<close>

definition team_member :: "('t, 'u, 'f) lib \<Rightarrow> json \<Rightarrow> py_error + 'u" where
  "team_member L x =
     bnd (getitem x ''user_id'') (\<lambda>i. bnd (getitem x ''user_login'') (\<lambda>n. PartialUser L i n))"

definition Team_init :: "('t, 'u, 'f) lib \<Rightarrow> dict \<Rightarrow> py_error + ('t, 'u) Team" where
  "Team_init L data =
     bnd (bnd (item data ''users'') (\<lambda>v.
          bnd (elements v) (comprehension (team_member L)))) (\<lambda>us.
     bnd (item data ''background_image_url'') (\<lambda>bg.
     bnd (item data ''banner'') (\<lambda>ba.
     bnd (date_at L data ''created_at'') (\<lambda>cr.
     bnd (date_at L data ''updated_at'') (\<lambda>up.
     bnd (item data ''info'') (\<lambda>inf.
     bnd (item data ''thumbnail_url'') (\<lambda>th.
     bnd (item data ''team_name'') (\<lambda>tn.
     bnd (item data ''team_display_name'') (\<lambda>td.
     bnd (item data ''id'') (\<lambda>i.
     Inr \<lparr> team_users = us, team_background_image_url = bg, team_banner = ba,
           team_created_at = cr, team_updated_at = up, team_info = inf,
           team_thumbnail_url = th, team_name = tn, team_display_name = td,
           team_id = i \<rparr>))))))))))"

record ('t, 'u) ChannelTeams =
  cteams_broadcaster :: 'u
  cteams_background_image_url :: json
  cteams_banner :: json
  cteams_created_at :: 't
  cteams_updated_at :: 't
  cteams_info :: json
  cteams_thumbnail_url :: json
  cteams_team_name :: json
  cteams_team_display_name :: json
  cteams_id :: json

definition ChannelTeams_init ::
  "('t, 'u, 'f) lib \<Rightarrow> dict \<Rightarrow> py_error + ('t, 'u) ChannelTeams" where
  "ChannelTeams_init L data =
     bnd (user_from L data ''broadcaster_id'' ''broadcaster_login'') (\<lambda>b.
     bnd (item data ''background_image_url'') (\<lambda>bg.
     bnd (item data ''banner'') (\<lambda>ba.
     bnd (date_at L data ''created_at'') (\<lambda>cr.
     bnd (date_at L data ''updated_at'') (\<lambda>up.
     bnd (item data ''info'') (\<lambda>inf.
     bnd (item data ''thumbnail_url'') (\<lambda>th.
     bnd (item data ''team_name'') (\<lambda>tn.
     bnd (item data ''team_display_name'') (\<lambda>td.
     bnd (item data ''id'') (\<lambda>i.
     Inr \<lparr> cteams_broadcaster = b, cteams_background_image_url = bg, cteams_banner = ba,
           cteams_created_at = cr, cteams_updated_at = up, cteams_info = inf,
           cteams_thumbnail_url = th, cteams_team_name = tn,
           cteams_team_display_name = td, cteams_id = i \<rparr>))))))))))"

section \<open>A reference library for concrete runs\<close>

text \<open>
  Concrete runs need concrete collaborators. Time values are calendar fields with a flag
  for an attached UTC zone. \<open>fromisoformat_py\<close> follows the standard library's
  \<^verbatim>\<open>datetime.fromisoformat\<close> on texts of the shape \<^verbatim>\<open>YYYY-MM-DDxHH:MM:SS\<close> (any separator
  character \<^verbatim>\<open>x\<close>), which give a naive value, and on the same texts followed by \<^verbatim>\<open>Z\<close>:
  interpreters before 3.11 reject the \<^verbatim>\<open>Z\<close> with \<^verbatim>\<open>ValueError\<close>, later ones give a value
  with the UTC zone; the flag \<open>z\<close> chooses. Every other text is \<^verbatim>\<open>ValueError\<close> here, also
  the further shapes (date only, fractions, numeric offsets) that the library accepts.
\<close>

record datetime =
  year :: nat
  month :: nat
  day :: nat
  hour :: nat
  minute :: nat
  second :: nat
  utc :: bool

definition num :: "string \<Rightarrow> nat option" where
  "num s = (if s \<noteq> [] \<and> list_all is_digit s then Some (nat (digits_value s)) else None)"

definition days_in_month :: "nat \<Rightarrow> nat \<Rightarrow> nat" where
  "days_in_month y m =
     (if m = 2 then (if y mod 4 = 0 \<and> (y mod 100 \<noteq> 0 \<or> y mod 400 = 0) then 29 else 28)
      else if m \<in> {4, 6, 9, 11} then 30 else 31)"

definition fromisoformat_py :: "bool \<Rightarrow> string \<Rightarrow> py_error + datetime" where
  "fromisoformat_py z s =
     (let aware = (z \<and> s \<noteq> [] \<and> last s = CHR ''Z'');
          body = (if aware then butlast s else s)
      in if length body = 19 \<and> body ! 4 = CHR ''-'' \<and> body ! 7 = CHR ''-''
            \<and> body ! 13 = CHR '':'' \<and> body ! 16 = CHR '':''
         then (case (num (take 4 body), num (take 2 (drop 5 body)),
                     num (take 2 (drop 8 body)), num (take 2 (drop 11 body)),
                     num (take 2 (drop 14 body)), num (take 2 (drop 17 body))) of
                 (Some y, Some m, Some d, Some h, Some mi, Some se) \<Rightarrow>
                   if 1 \<le> y \<and> 1 \<le> m \<and> m \<le> 12 \<and> 1 \<le> d \<and> d \<le> days_in_month y m
                      \<and> h < 24 \<and> mi < 60 \<and> se < 60
                   then Inr \<lparr> year = y, month = m, day = d, hour = h, minute = mi,
                              second = se, utc = aware \<rparr>
                   else Inl ValueError
               | _ \<Rightarrow> Inl ValueError)
         else Inl ValueError)"

text \<open>The reference library stands in for the collaborators wherever a constructor is
  run on a concrete payload: \<^verbatim>\<open>parse_timestamp\<close> reads a string with \<open>fromisoformat_py\<close>
  (zone marker accepted), a placeholder user is the pair of the id and the name it was
  built from, and a float is the payload value it was converted from. The general
  theorems hold for every library.\<close>

definition ref_lib :: "bool \<Rightarrow> (datetime, json \<times> json, json) lib" where
  "ref_lib z =
     \<lparr> parse_timestamp = (\<lambda>v. case v of JStr s \<Rightarrow> fromisoformat_py True s | _ \<Rightarrow> Inl TypeError),
       fromisoformat = fromisoformat_py z,
       PartialUser = (\<lambda>i n. Inr (i, n)),
       py_float = (\<lambda>v. Inr v) \<rparr>"

section \<open>AutomodCheckMessage\<close>





section \<open>Extension and ExtensionBuilder\<close>

record Extension =
  ext_id :: json
  ext_version :: json
  ext_active :: json
  ext_x :: json
  ext_y :: json

definition Extension_init :: "dict \<Rightarrow> py_error + Extension" where
  "Extension_init data =
     bnd (item data ''id'') (\<lambda>i.
     bnd (item data ''version'') (\<lambda>v.
     bnd (item data ''active'') (\<lambda>a.
     Inr \<lparr> ext_id = i, ext_version = v, ext_active = a, ext_x = JNull, ext_y = JNull \<rparr>)))"

definition Extension_new :: "json \<Rightarrow> json \<Rightarrow> json \<Rightarrow> json \<Rightarrow> json \<Rightarrow> Extension" where
  "Extension_new active version i x y =
     \<lparr> ext_id = i, ext_version = version, ext_active = active, ext_x = x, ext_y = y \<rparr>"

definition Extension_to_dict :: "Extension \<Rightarrow> dict" where
  "Extension_to_dict e =
     (let v = setitem (setitem (setitem [] ''active'' (ext_active e)) ''id'' (ext_id e))
                ''version'' (ext_version e);
          v = (if ext_x e \<noteq> JNull then setitem v ''x'' (ext_x e) else v);
          v = (if ext_y e \<noteq> JNull then setitem v ''y'' (ext_y e) else v)
      in v)"







section \<open>Concrete payloads\<close>

text \<open>Payloads in the shape of the platform's responses, on which the constructors are
  run below.\<close>

definition extension_payload :: dict where
  "extension_payload =
     [(''id'', JStr ''e1''), (''version'', JStr ''1.0''), (''active'', JBool True),
      (''x'', JInt 5), (''y'', JInt 7)]"

definition outcome_payload :: json where
  "outcome_payload = JObj [(''id'', JStr ''o1''), (''title'', JStr ''yes''),
     (''channel_points'', JInt 100), (''color'', JStr ''BLUE''), (''users'', JInt 1),
     (''top_predictors'', JList [JObj [(''channel_points_used'', JInt 100),
        (''channel_points_won'', JInt 0),
        (''user'', JObj [(''id'', JStr ''7''), (''name'', JStr ''ann'')])]])]"

definition subscription_payload :: "json \<Rightarrow> dict" where
  "subscription_payload t =
     [(''broadcaster_id'', JStr ''1''), (''broadcaster_name'', JStr ''bob''),
      (''user_id'', JStr ''2''), (''user_name'', JStr ''ann''), (''tier'', t),
      (''plan_name'', JStr ''Channel Subscription''), (''is_gift'', JBool False)]"


definition ban_payload :: "(string \<times> json) list \<Rightarrow> dict" where
  "ban_payload expiry =
     [(''id'', JStr ''b1''), (''event_type'', JStr ''moderation.user.ban''),
      (''event_timestamp'', JStr ''2021-05-01T12:00:00Z''), (''version'', JStr ''1.0''),
      (''event_data'', JObj ([(''reason'', JStr ''spam''),
         (''broadcaster_id'', JStr ''1''), (''broadcaster_name'', JStr ''bob''),
         (''user_id'', JStr ''2''), (''user_name'', JStr ''ann''),
         (''moderator_id'', JStr ''3''), (''moderator_name'', JStr ''mod'')] @ expiry))]"





definition segment_payload :: "string \<Rightarrow> json \<Rightarrow> json" where
  "segment_payload i cat =
     JObj [(''id'', JStr i), (''start_time'', JStr ''2021-05-01T12:00:00Z''),
           (''end_time'', JStr ''2021-05-01T12:30:00Z''), (''title'', JStr ''t''),
           (''canceled_until'', JNull), (''category'', cat), (''is_recurring'', JBool False)]"

definition schedule_payload :: dict where
  "schedule_payload =
     [(''data'', JObj [(''segments'',
          JList [segment_payload ''s1''
                   (JObj [(''id'', JStr ''33103''), (''name'', JStr ''Science'')]),
                 segment_payload ''s2'' JNull]),
        (''broadcaster_id'', JStr ''1''), (''broadcaster_name'', JStr ''Bob''),
        (''broadcaster_login'', JStr ''bob''), (''vacation'', JNull)])]"

definition prediction_time_payload :: "json \<Rightarrow> dict" where
  "prediction_time_payload v = [(''created_at'', v), (''ended_at'', JNull)]"

section \<open>Required keys\<close>

text \<open>The keys that \<^verbatim>\<open>Clip.__init__\<close> and \<^verbatim>\<open>Stream.__init__\<close> subscript, in the order
  of the source, and the payload that lacks one key.\<close>

definition Clip_keys :: "string list" where
  "Clip_keys =
     [''id'', ''url'', ''embed_url'', ''broadcaster_id'', ''broadcaster_name'', ''creator_id'',
      ''creator_name'', ''video_id'', ''game_id'', ''language'', ''title'', ''view_count'',
      ''created_at'', ''thumbnail_url'']"

definition Stream_keys :: "string list" where
  "Stream_keys =
     [''id'', ''user_id'', ''user_name'', ''game_id'', ''game_name'', ''type'', ''title'',
      ''viewer_count'', ''started_at'', ''language'', ''thumbnail_url'', ''tag_ids'',
      ''is_mature'']"

definition del_key :: "string \<Rightarrow> dict \<Rightarrow> dict" where
  "del_key k d = filter (\<lambda>(k', v). k' \<noteq> k) d"

section \<open>Record types and the keys they require\<close>

text \<open>
  The record types of the module that a payload constructs, each with the arguments its
  constructor takes besides the payload: users that the caller supplies, and the two
  collaborators named above. \<^verbatim>\<open>Predictor\<close> is not among them, as no payload constructs
  it. \<open>construct_error\<close> runs the constructor and gives the exception it raises, if
  any.
\<close>

datatype ('u, 'b, 'm) record_type =
    T_BitsLeaderboard "json \<Rightarrow> py_error + 'b"
  | T_CheerEmoteTier
  | T_CheerEmote
  | T_Clip
  | T_HypeTrainContribution
  | T_HypeTrainEvent
  | T_BanEvent "'u option"
  | T_FollowEvent "'u option" "'u option"
  | T_SubscriptionEvent "'u option" "'u option"
  | T_Marker
  | T_VideoMarkers
  | T_Game
  | T_ModEvent "json \<Rightarrow> py_error + 'm" 'u
  | T_AutomodCheckResponse
  | T_Extension
  | T_MaybeActiveExtension
  | T_ActiveExtension
  | T_Video "'u option"
  | T_Tag
  | T_WebhookSubscription
  | T_Stream
  | T_ChannelInfo
  | T_Prediction
  | T_PredictionOutcome
  | T_Schedule
  | T_ScheduleSegment
  | T_ScheduleCategory
  | T_ScheduleVacation
  | T_Team
  | T_ChannelTeams

definition raised :: "py_error + 'a \<Rightarrow> py_error option" where
  "raised r = (case r of Inl e \<Rightarrow> Some e | Inr _ \<Rightarrow> None)"

fun construct_error ::
  "('t, 'u, 'f) lib \<Rightarrow> ('u, 'b, 'm) record_type \<Rightarrow> dict \<Rightarrow> py_error option" where
  "construct_error L (T_BitsLeaderboard leader) d = raised (BitsLeaderboard_init L leader d)"
| "construct_error L T_CheerEmoteTier d = raised (CheerEmoteTier_init d)"
| "construct_error L T_CheerEmote d = raised (CheerEmote_init L d)"
| "construct_error L T_Clip d = raised (Clip_init L d)"
| "construct_error L T_HypeTrainContribution d = raised (HypeTrainContribution_init L d)"
| "construct_error L T_HypeTrainEvent d = raised (HypeTrainEvent_init L d)"
| "construct_error L (T_BanEvent b) d = raised (BanEvent_init L d b)"
| "construct_error L (T_FollowEvent f t) d = raised (FollowEvent_init L d f t)"
| "construct_error L (T_SubscriptionEvent b u) d = raised (SubscriptionEvent_init L d b u)"
| "construct_error L T_Marker d = raised (Marker_init L d)"
| "construct_error L T_VideoMarkers d = raised (VideoMarkers_init L d)"
| "construct_error L T_Game d = raised (Game_init d)"
| "construct_error L (T_ModEvent mod_event b) d = raised (ModEvent_init L mod_event d b)"
| "construct_error L T_AutomodCheckResponse d = raised (AutomodCheckResponse_init d)"
| "construct_error L T_Extension d = raised (Extension_init d)"
| "construct_error L T_MaybeActiveExtension d = raised (MaybeActiveExtension_init d)"
| "construct_error L T_ActiveExtension d = raised (ActiveExtension_init d)"
| "construct_error L (T_Video u) d = raised (Video_init L d u)"
| "construct_error L T_Tag d = raised (Tag_init d)"
| "construct_error L T_WebhookSubscription d = raised (WebhookSubscription_init L d)"
| "construct_error L T_Stream d = raised (Stream_init L d)"
| "construct_error L T_ChannelInfo d = raised (ChannelInfo_init L d)"
| "construct_error L T_Prediction d = raised (Prediction_init L d)"
| "construct_error L T_PredictionOutcome d = raised (PredictionOutcome_init L (JObj d))"
| "construct_error L T_Schedule d = raised (Schedule_init L d)"
| "construct_error L T_ScheduleSegment d = raised (ScheduleSegment_init L (JObj d))"
| "construct_error L T_ScheduleCategory d = raised (ScheduleCategory_init (JObj d))"
| "construct_error L T_ScheduleVacation d = raised (ScheduleVacation_init L (JObj d))"
| "construct_error L T_Team d = raised (Team_init L d)"
| "construct_error L T_ChannelTeams d = raised (ChannelTeams_init L d)"

text \<open>
  A field that a constructor reads by subscript: \<open>Top k\<close> is \<^verbatim>\<open>data[k]\<close>, \<open>Sub k0 k\<close>
  is \<^verbatim>\<open>data[k0][k]\<close>, and \<open>Elem k0 i k\<close> is \<^verbatim>\<open>x[k]\<close> for the element \<^verbatim>\<open>x\<close> at position
  \<open>i\<close> of the list \<^verbatim>\<open>data[k0]\<close>. \<open>without f d\<close> is the payload \<open>d\<close> with the key of
  that field removed, and nothing else changed.
\<close>

datatype field = Top string | Sub string string | Elem string nat string

fun field_key :: "field \<Rightarrow> string" where
  "field_key (Top k) = k"
| "field_key (Sub k0 k) = k"
| "field_key (Elem k0 i k) = k"

definition del_in :: "string \<Rightarrow> json \<Rightarrow> json" where
  "del_in k v = (case v of JObj d \<Rightarrow> JObj (del_key k d) | _ \<Rightarrow> v)"

definition del_elem :: "nat \<Rightarrow> string \<Rightarrow> json \<Rightarrow> json" where
  "del_elem i k v =
     (case v of
        JList xs \<Rightarrow> JList (if i < length xs then xs[i := del_in k (xs ! i)] else xs)
      | _ \<Rightarrow> v)"

fun without :: "field \<Rightarrow> dict \<Rightarrow> dict" where
  "without (Top k) d = del_key k d"
| "without (Sub k0 k) d = map (\<lambda>(k', v). (k', if k' = k0 then del_in k v else v)) d"
| "without (Elem k0 i k) d = map (\<lambda>(k', v). (k', if k' = k0 then del_elem i k v else v)) d"

text \<open>The keys of the users that a constructor reads only when the caller supplied
  none.\<close>

definition unless_supplied :: "'u option \<Rightarrow> field list \<Rightarrow> field list" where
  "unless_supplied supplied fs = (case supplied of None \<Rightarrow> fs | Some _ \<Rightarrow> [])"

text \<open>The number of elements of the list \<^verbatim>\<open>data[k]\<close>.\<close>

definition list_length_at :: "dict \<Rightarrow> string \<Rightarrow> nat" where
  "list_length_at d k = (case map_of d k of Some (JList xs) \<Rightarrow> length xs | _ \<Rightarrow> 0)"

text \<open>The fields that each constructor reads by subscript, in the order of the
  source.\<close>

fun required :: "('u, 'b, 'm) record_type \<Rightarrow> dict \<Rightarrow> field list" where
  "required (T_BitsLeaderboard leader) d =
     [Top ''date_range'', Sub ''date_range'' ''started_at'', Sub ''date_range'' ''ended_at'',
      Top ''data'']"
| "required T_CheerEmoteTier d =
     map Top [''min_bits'', ''id'', ''colour'', ''images'', ''can_cheer'',
              ''show_in_bits_card'']"
| "required T_CheerEmote d =
     map Top [''prefix'', ''tiers'', ''type'', ''order'', ''last_updated'', ''is_charitable'']"
| "required T_Clip d = map Top Clip_keys"
| "required T_HypeTrainContribution d = map Top [''total'', ''type'', ''user'']"
| "required T_HypeTrainEvent d =
     [Top ''id'', Top ''event_data'', Sub ''event_data'' ''id'', Top ''event_type'',
      Top ''version'', Sub ''event_data'' ''broadcaster_id'', Top ''event_timestamp'',
      Sub ''event_data'' ''cooldown_end_time'', Top ''expires_at'',
      Sub ''event_data'' ''started_at'', Sub ''event_data'' ''last_contribution'',
      Sub ''event_data'' ''level'', Sub ''event_data'' ''top_contributions'',
      Sub ''event_data'' ''total'', Sub ''event_data'' ''goal'']"
| "required (T_BanEvent b) d =
     [Top ''id'', Top ''event_type'', Top ''event_timestamp'', Top ''version'',
      Top ''event_data'', Sub ''event_data'' ''reason'']
     @ unless_supplied b
         [Sub ''event_data'' ''broadcaster_id'', Sub ''event_data'' ''broadcaster_name'']
     @ [Sub ''event_data'' ''user_id'', Sub ''event_data'' ''user_name'',
        Sub ''event_data'' ''moderator_id'', Sub ''event_data'' ''moderator_name'',
        Sub ''event_data'' ''expires_at'']"
| "required (T_FollowEvent f t) d =
     unless_supplied f [Top ''from_id'', Top ''from_name'']
     @ unless_supplied t [Top ''to_id'', Top ''to_name'']
     @ [Top ''followed_at'']"
| "required (T_SubscriptionEvent b u) d =
     unless_supplied b [Top ''broadcaster_id'', Top ''broadcaster_name'']
     @ unless_supplied u [Top ''user_id'', Top ''user_name'']
     @ map Top [''tier'', ''plan_name'', ''is_gift'']"
| "required T_Marker d = map Top [''id'', ''created_at'', ''description'', ''position_seconds'']"
| "required T_VideoMarkers d = map Top [''video_id'', ''markers'']"
| "required T_Game d = map Top [''id'', ''name'', ''box_art_url'']"
| "required (T_ModEvent mod_event b) d =
     [Top ''id'', Top ''event_type'', Top ''event_timestamp'', Top ''version'',
      Top ''event_data'', Sub ''event_data'' ''user_id'', Sub ''event_data'' ''user_name'']"
| "required T_AutomodCheckResponse d = map Top [''msg_id'', ''is_permitted'']"
| "required T_Extension d = map Top [''id'', ''version'', ''active'']"
| "required T_MaybeActiveExtension d =
     map Top [''id'', ''version'', ''name'', ''can_activate'', ''type'']"
| "required T_ActiveExtension d = [Top ''active'']"
| "required (T_Video u) d =
     [Top ''id''] @ unless_supplied u [Top ''user_id'', Top ''user_name'']
     @ map Top [''title'', ''description'', ''created_at'', ''published_at'', ''url'',
                ''thumbnail_url'', ''viewable'', ''view_count'', ''language'', ''type'',
                ''duration'']"
| "required T_Tag d =
     map Top [''tag_id'', ''is_auto'', ''localization_names'', ''localization_descriptions'']"
| "required T_WebhookSubscription d = map Top [''callback'', ''expired_at'', ''topic'']"
| "required T_Stream d = map Top Stream_keys"
| "required T_ChannelInfo d =
     map Top [''broadcaster_id'', ''broadcaster_name'', ''game_id'', ''game_name'', ''title'',
              ''broadcaster_language'', ''delay'']"
| "required T_Prediction d =
     map Top [''broadcaster_id'', ''broadcaster_name'', ''id'', ''title'',
              ''winning_outcome_id'', ''outcomes'', ''prediction_window'', ''status'']"
| "required T_PredictionOutcome d =
     map Top [''id'', ''title'', ''channel_points'', ''color'', ''users'', ''top_predictors'']"
| "required T_Schedule d =
     [Top ''data'', Sub ''data'' ''segments'', Sub ''data'' ''broadcaster_id'',
      Sub ''data'' ''broadcaster_login'', Sub ''data'' ''vacation'']"
| "required T_ScheduleSegment d =
     map Top [''id'', ''start_time'', ''end_time'', ''title'', ''canceled_until'', ''category'',
              ''is_recurring'']"
| "required T_ScheduleCategory d = map Top [''id'', ''name'']"
| "required T_ScheduleVacation d = map Top [''start_time'', ''end_time'']"
| "required T_Team d =
     [Top ''users'']
     @ concat (map (\<lambda>i. [Elem ''users'' i ''user_id'', Elem ''users'' i ''user_login''])
                 [0..<list_length_at d ''users''])
     @ map Top [''background_image_url'', ''banner'', ''created_at'', ''updated_at'', ''info'',
                ''thumbnail_url'', ''team_name'', ''team_display_name'', ''id'']"
| "required T_ChannelTeams d =
     map Top [''broadcaster_id'', ''broadcaster_login'', ''background_image_url'', ''banner'',
              ''created_at'', ''updated_at'', ''info'', ''thumbnail_url'', ''team_name'',
              ''team_display_name'', ''id'']"

section \<open>Facts about the built-in operations\<close>

lemma bnd_Inr [simp]: "bnd (Inr v) f = f v"
  by (simp add: bnd_def)

lemma bnd_Inl [simp]: "bnd (Inl e) f = Inl e"
  by (simp add: bnd_def)

lemma bnd_eq_Inr: "bnd m f = Inr r \<longleftrightarrow> (\<exists>v. m = Inr v \<and> f v = Inr r)"
  by (cases m) simp_all










section \<open>Outbound payloads\<close>



lemma item_Some: "map_of d k = Some v \<Longrightarrow> item d k = Inr v"
  by (simp add: item_def)

lemma item_eq_Inr: "item d k = Inr v \<longleftrightarrow> map_of d k = Some v"
  by (simp add: item_def split: option.splits)

text \<open>
  C2 as stated fails: \<^verbatim>\<open>Extension.__init__\<close> never reads \<^verbatim>\<open>x\<close> or \<^verbatim>\<open>y\<close> and sets both
  coordinates to \<^verbatim>\<open>None\<close>, so a payload carrying \<^verbatim>\<open>x = 5\<close> is serialized without any
  \<^verbatim>\<open>x\<close>.
\<close>

theorem Extension_coordinates_counterexample:
  "Extension_init extension_payload
     = Inr \<lparr> ext_id = JStr ''e1'', ext_version = JStr ''1.0'', ext_active = JBool True,
             ext_x = JNull, ext_y = JNull \<rparr>
   \<and> map_of (Extension_to_dict \<lparr> ext_id = JStr ''e1'', ext_version = JStr ''1.0'',
                ext_active = JBool True, ext_x = JNull, ext_y = JNull \<rparr>) ''x'' = None
   \<and> map_of extension_payload ''x'' = Some (JInt 5)"
  by (simp add: Extension_init_def Extension_to_dict_def item_def extension_payload_def)

text \<open>
  C2, amended. A payload that has the keys \<^verbatim>\<open>id\<close>, \<^verbatim>\<open>version\<close> and \<^verbatim>\<open>active\<close> constructs an
  \<^verbatim>\<open>Extension\<close>, and serializing it gives exactly these three entries, with the payload's
  values unchanged, in the order \<^verbatim>\<open>active\<close>, \<^verbatim>\<open>id\<close>, \<^verbatim>\<open>version\<close>; coordinates of the payload
  are not carried over.
\<close>

theorem Extension_round_trip:
  assumes "map_of data ''id'' = Some i" "map_of data ''version'' = Some v"
    "map_of data ''active'' = Some a"
  shows "\<exists>e. Extension_init data = Inr e
           \<and> Extension_to_dict e = [(''active'', a), (''id'', i), (''version'', v)]"
  using assms by (simp add: Extension_init_def Extension_to_dict_def item_Some)

theorem Extension_round_trip_witness:
  "\<exists>e. Extension_init extension_payload = Inr e
      \<and> Extension_to_dict e
         = [(''active'', JBool True), (''id'', JStr ''e1''), (''version'', JStr ''1.0'')]"
  by (rule Extension_round_trip) (simp_all add: extension_payload_def)

section \<open>Prediction outcomes\<close>

text \<open>
  C10. A null or empty \<^verbatim>\<open>top_predictors\<close> gives \<^verbatim>\<open>None\<close>, and a non-empty one should give
  the list of its predictor records. On the code the non-empty case never gets that far:
  \<^verbatim>\<open>Predictor.__init__\<close> assigns \<^verbatim>\<open>channel_points_used\<close>, which is not among the slots of
  \<^verbatim>\<open>Predictor\<close>, so constructing the outcome raises \<^verbatim>\<open>AttributeError\<close>; no payload at all
  constructs a \<^verbatim>\<open>Predictor\<close>.
\<close>

theorem PredictionOutcome_top_predictors_raises:
  "PredictionOutcome_init (ref_lib True) outcome_payload
     = Inl (AttributeError ''channel_points_used'')
   \<and> Predictor_init L x \<noteq> Inr p"
proof -
  have "PredictionOutcome_init (ref_lib True) outcome_payload
          = Inl (AttributeError ''channel_points_used'')"
    by (simp add: PredictionOutcome_init_def outcome_payload_def getitem_def item_def
        elements_def Predictor_init_def setattr_slots_def Predictor_slots_def)
  moreover have "Predictor_init L x \<noteq> Inr p"
    by (simp add: Predictor_init_def bnd_eq_Inr setattr_slots_def Predictor_slots_def)
  ultimately show ?thesis by simp
qed

section \<open>Subscription tiers\<close>

lemma int_of_str_thousands:
  "int_of_str ''1000'' = Inr 1000" "int_of_str ''2000'' = Inr 2000"
  "int_of_str ''3000'' = Inr 3000"
  by (simp_all add: int_of_str_def strip_def is_space_def digits_value_def is_digit_def
      int_max_str_digits_def)

lemma bit_lengths:
  "bit_length 500 = 9" "bit_length 1000 = 10" "bit_length 1499 = 11" "bit_length 1500 = 11"
  "bit_length 2000 = 11" "bit_length 2500 = 12" "bit_length 2501 = 12" "bit_length 3000 = 12"
  "bit_length 9007199254740993000 = 63"
  by (simp_all add: bit_length.simps)

lemma bit_length_shift: "0 < n \<Longrightarrow> bit_length (n * 2 ^ k) = bit_length n + k"
proof (induction k)
  case 0
  then show ?case by simp
next
  case (Suc k)
  have "bit_length (n * 2 ^ Suc k) = Suc (bit_length ((n * 2 ^ Suc k) div 2))"
    using Suc.prems by (subst bit_length.simps) simp
  also have "(n * 2 ^ Suc k) div 2 = n * 2 ^ k" by simp
  finally show ?case using Suc by simp
qed

lemmas truediv_eval = py_truediv_def Let_def bit_lengths ge_pow2_def round_half_even_def

lemma truediv_thousands:
  "py_truediv 1000 1000 = Inr (4503599627370496, - 52)"
  "py_truediv 2000 1000 = Inr (4503599627370496, - 51)"
  "py_truediv 3000 1000 = Inr (6755399441055744, - 51)"
  by (simp_all add: truediv_eval)

lemma truediv_between:
  "py_truediv 500 1000 = Inr (4503599627370496, - 53)"
  "py_truediv 1500 1000 = Inr (6755399441055744, - 52)"
  "py_truediv 2500 1000 = Inr (5629499534213120, - 51)"
  "py_truediv 1499 1000 = Inr (6750895841428374, - 52)"
  "py_truediv 2501 1000 = Inr (5631751334026805, - 51)"
  by (simp_all add: truediv_eval)

lemma truediv_large:
  "py_truediv 9007199254740993000 1000 = Inr (4503599627370496, 1)"
  by (simp add: truediv_eval)

lemma truediv_overflow: "py_truediv (1000 * 2 ^ 1024) 1000 = Inl OverflowError"
proof -
  have "bit_length (1000 * 2 ^ 1024) = 10 + 1024"
    using bit_length_shift[of 1000 1024] by (simp add: bit_lengths)
  moreover have "nat \<bar>1000 * 2 ^ 1024 :: int\<bar> = 1000 * 2 ^ 1024"
    by (simp add: nat_mult_distrib nat_power_eq)
  ultimately have "bit_length (nat \<bar>1000 * 2 ^ 1024 :: int\<bar>) = 1034"
    by simp
  then show ?thesis
    by (simp add: truediv_eval)
qed

lemma round_examples:
  "py_round (4503599627370496, - 52) = 1" "py_round (4503599627370496, - 51) = 2"
  "py_round (6755399441055744, - 51) = 3"
  "py_round (4503599627370496, - 53) = 0" "py_round (6755399441055744, - 52) = 2"
  "py_round (5629499534213120, - 51) = 2"
  "py_round (6750895841428374, - 52) = 1"
  "py_round (5631751334026805, - 51) = 3"
  "py_round (4503599627370496, 1) = 9007199254740992"
  by (simp_all add: py_round_def round_half_even_def Let_def)

lemma SubscriptionEvent_tier:
  assumes "SubscriptionEvent_init L data b u = Inr ev"
  shows "\<exists>t n q. map_of data ''tier'' = Some t \<and> py_int t = Inr n
            \<and> py_truediv n 1000 = Inr q \<and> sub_tier ev = py_round q"
  using assms
  by (auto simp: SubscriptionEvent_init_def bnd_eq_Inr item_eq_Inr)

lemma SubscriptionEvent_run:
  "SubscriptionEvent_init (ref_lib True) (subscription_payload (JStr ''2000''))
       (Some (JStr ''1'', JStr ''resolved'')) None
     = Inr \<lparr> sub_broadcaster = (JStr ''1'', JStr ''resolved''),
             sub_user = (JStr ''2'', JStr ''ann''),
             sub_tier = 2, sub_plan_name = JStr ''Channel Subscription'',
             sub_gift = JBool False \<rparr>"
  by (simp add: SubscriptionEvent_init_def subscription_payload_def or_else_def user_from_def
      item_def ref_lib_def py_int_def int_of_str_thousands truediv_thousands round_examples)

text \<open>
  C6. In every subscription event that is constructed, the tier attribute is
  \<^verbatim>\<open>round(int(data["tier"]) / 1000)\<close>, the division being that of doubles and the
  rounding to the nearest integer with ties to the even one. A payload tier of 1000 gives
  1, 2000 gives 2 and 3000 gives 3, whether the payload carries the tier as an integer or as
  a decimal string. Between the thousands the quotient is rounded: 1499 gives 1, 2501
  gives 3, and the ties 500, 1500 and 2500 give 0, 2 and 2. Beyond the integers that a
  double holds the tier is the rounded double, and a tier whose quotient is too large for
  a double constructs no event.
\<close>

theorem SubscriptionEvent_tier_decoding:
  assumes "SubscriptionEvent_init L data b u = Inr ev"
  shows "(map_of data ''tier'' = Some (JInt 1000) \<or> map_of data ''tier'' = Some (JStr ''1000'')
            \<longrightarrow> sub_tier ev = 1)
       \<and> (map_of data ''tier'' = Some (JInt 2000) \<or> map_of data ''tier'' = Some (JStr ''2000'')
            \<longrightarrow> sub_tier ev = 2)
       \<and> (map_of data ''tier'' = Some (JInt 3000) \<or> map_of data ''tier'' = Some (JStr ''3000'')
            \<longrightarrow> sub_tier ev = 3)
       \<and> (map_of data ''tier'' = Some (JInt 1499) \<longrightarrow> sub_tier ev = 1)
       \<and> (map_of data ''tier'' = Some (JInt 2501) \<longrightarrow> sub_tier ev = 3)
       \<and> (map_of data ''tier'' = Some (JInt 500) \<longrightarrow> sub_tier ev = 0)
       \<and> (map_of data ''tier'' = Some (JInt 1500) \<longrightarrow> sub_tier ev = 2)
       \<and> (map_of data ''tier'' = Some (JInt 2500) \<longrightarrow> sub_tier ev = 2)
       \<and> (map_of data ''tier'' = Some (JInt 9007199254740993000)
            \<longrightarrow> sub_tier ev = 9007199254740992)
       \<and> map_of data ''tier'' \<noteq> Some (JInt (1000 * 2 ^ 1024))
       \<and> (\<exists>t n q. map_of data ''tier'' = Some t \<and> py_int t = Inr n
            \<and> py_truediv n 1000 = Inr q \<and> sub_tier ev = py_round q)"
proof -
  from SubscriptionEvent_tier[OF assms] obtain t n q where
    t: "map_of data ''tier'' = Some t" and n: "py_int t = Inr n"
    and q: "py_truediv n 1000 = Inr q" and r: "sub_tier ev = py_round q" by blast
  have i: "sub_tier ev = py_round q'" if "py_truediv m 1000 = Inr q'" "t = JInt m" for m q'
    using that n q r by (simp add: py_int_def)
  have s: "sub_tier ev = py_round q'"
    if "int_of_str w = Inr m" "py_truediv m 1000 = Inr q'" "t = JStr w" for w m q'
    using that n q r by (simp add: py_int_def)
  have over: "t \<noteq> JInt (1000 * 2 ^ 1024)"
  proof
    assume "t = JInt (1000 * 2 ^ 1024)"
    with n have "n = 1000 * 2 ^ 1024" by (simp add: py_int_def)
    with q truediv_overflow show False by simp
  qed
  have c1: "map_of data ''tier'' = Some (JInt 1000) \<or> map_of data ''tier'' = Some (JStr ''1000'')
            \<longrightarrow> sub_tier ev = 1"
    using t i[OF truediv_thousands(1)] s[OF int_of_str_thousands(1) truediv_thousands(1)]
    by (auto simp: round_examples)
  have c2: "map_of data ''tier'' = Some (JInt 2000) \<or> map_of data ''tier'' = Some (JStr ''2000'')
            \<longrightarrow> sub_tier ev = 2"
    using t i[OF truediv_thousands(2)] s[OF int_of_str_thousands(2) truediv_thousands(2)]
    by (auto simp: round_examples)
  have c3: "map_of data ''tier'' = Some (JInt 3000) \<or> map_of data ''tier'' = Some (JStr ''3000'')
            \<longrightarrow> sub_tier ev = 3"
    using t i[OF truediv_thousands(3)] s[OF int_of_str_thousands(3) truediv_thousands(3)]
    by (auto simp: round_examples)
  have c4: "map_of data ''tier'' = Some (JInt 1499) \<longrightarrow> sub_tier ev = 1"
    using t i[OF truediv_between(4)] by (auto simp: round_examples)
  have c5: "map_of data ''tier'' = Some (JInt 2501) \<longrightarrow> sub_tier ev = 3"
    using t i[OF truediv_between(5)] by (auto simp: round_examples)
  have c6: "map_of data ''tier'' = Some (JInt 500) \<longrightarrow> sub_tier ev = 0"
    using t i[OF truediv_between(1)] by (auto simp: round_examples)
  have c7: "map_of data ''tier'' = Some (JInt 1500) \<longrightarrow> sub_tier ev = 2"
    using t i[OF truediv_between(2)] by (auto simp: round_examples)
  have c8: "map_of data ''tier'' = Some (JInt 2500) \<longrightarrow> sub_tier ev = 2"
    using t i[OF truediv_between(3)] by (auto simp: round_examples)
  have c9: "map_of data ''tier'' = Some (JInt 9007199254740993000)
            \<longrightarrow> sub_tier ev = 9007199254740992"
    using t i[OF truediv_large] by (auto simp: round_examples)
  have c10: "map_of data ''tier'' \<noteq> Some (JInt (1000 * 2 ^ 1024))"
    using t over by simp
  have c11: "\<exists>t n q. map_of data ''tier'' = Some t \<and> py_int t = Inr n
            \<and> py_truediv n 1000 = Inr q \<and> sub_tier ev = py_round q"
    using t n q r by blast
  show ?thesis
    using c1 c2 c3 c4 c5 c6 c7 c8 c9 c10 c11 by (intro conjI)
qed

theorem SubscriptionEvent_tier_decoding_witness:
  "SubscriptionEvent_init (ref_lib True) (subscription_payload (JStr ''2000''))
       (Some (JStr ''1'', JStr ''resolved'')) None
     = Inr \<lparr> sub_broadcaster = (JStr ''1'', JStr ''resolved''),
             sub_user = (JStr ''2'', JStr ''ann''),
             sub_tier = 2, sub_plan_name = JStr ''Channel Subscription'',
             sub_gift = JBool False \<rparr>
   \<and> map_of (subscription_payload (JStr ''2000'')) ''tier'' = Some (JStr ''2000'')
   \<and> sub_tier \<lparr> sub_broadcaster = (JStr ''1'', JStr ''resolved''),
             sub_user = (JStr ''2'', JStr ''ann''),
             sub_tier = 2, sub_plan_name = JStr ''Channel Subscription'',
             sub_gift = JBool False \<rparr> = (2::int)"
  using SubscriptionEvent_run SubscriptionEvent_tier_decoding[OF SubscriptionEvent_run]
  by (simp add: subscription_payload_def)

section \<open>User references\<close>








lemma timestamp_noon: "fromisoformat_py True ''2021-05-01T12:00:00Z''
   = Inr \<lparr> year = 2021, month = 5, day = 1, hour = 12, minute = 0, second = 0, utc = True \<rparr>"
  by code_simp

lemma timestamp_half_past: "fromisoformat_py True ''2021-05-01T12:30:00Z''
   = Inr \<lparr> year = 2021, month = 5, day = 1, hour = 12, minute = 30, second = 0, utc = True \<rparr>"
  by code_simp


lemma BanEvent_run:
  "BanEvent_init (ref_lib True) (ban_payload [(''expires_at'', JNull)]) None
     = Inr \<lparr> ban_id = JStr ''b1'', ban_type = JStr ''moderation.user.ban'',
             ban_timestamp = \<lparr> year = 2021, month = 5, day = 1, hour = 12, minute = 0,
                            second = 0, utc = True \<rparr>,
             ban_version = JStr ''1.0'', ban_reason = JStr ''spam'',
             ban_broadcaster = (JStr ''1'', JStr ''bob''), ban_user = (JStr ''2'', JStr ''ann''),
             ban_moderator = (JStr ''3'', JStr ''mod''), ban_expires_at = None \<rparr>"
  by (simp add: BanEvent_init_def ban_payload_def or_else_def user_from2_def time_at_def
      item_def item2_def getitem_def ref_lib_def timestamp_noon)





section \<open>Missing required keys\<close>










section \<open>Optional attributes\<close>

lemma BanEvent_expires_at:
  assumes "BanEvent_init L d b = Inr ev"
  shows "\<exists>v. item2 d ''event_data'' ''expires_at'' = Inr v
           \<and> (if truthy v then \<exists>t. parse_timestamp L v = Inr t \<and> ban_expires_at ev = Some t
               else ban_expires_at ev = None)"
  using assms
  by (auto simp: BanEvent_init_def bnd_eq_Inr split: if_splits)




section \<open>Schedules and their segments\<close>

lemma comprehension_two:
  "comprehension f [x, y] = Inr zs \<longleftrightarrow> (\<exists>a b. f x = Inr a \<and> f y = Inr b \<and> zs = [a, b])"
  by (auto simp: bnd_eq_Inr)

lemma bndE:
  assumes "bnd m f = Inr r"
  obtains v where "m = Inr v" and "f v = Inr r"
  using assms by (auto simp: bnd_eq_Inr)

lemma ScheduleSegment_category:
  assumes "ScheduleSegment_init L d = Inr seg"
  shows "\<exists>v. getitem d ''category'' = Inr v
           \<and> (if truthy v
               then \<exists>cat. ScheduleCategory_init v = Inr cat \<and> segment_category seg = Some cat
               else segment_category seg = None)
           \<and> getitem d ''id'' = Inr (segment_id seg)"
  using assms unfolding ScheduleSegment_init_def
  by (elim bndE) (auto simp: bnd_eq_Inr split: if_splits)

lemma Schedule_segments:
  assumes "Schedule_init L data = Inr s"
  shows "\<exists>v xs. item2 data ''data'' ''segments'' = Inr v \<and> elements v = Inr xs
            \<and> comprehension (ScheduleSegment_init L) xs = Inr (segments s)"
  using assms by (auto simp: Schedule_init_def bnd_eq_Inr)

lemma ScheduleCategory_obj:
  "map_of c ''id'' = Some i \<Longrightarrow> map_of c ''name'' = Some n \<Longrightarrow>
   ScheduleCategory_init (JObj c) = Inr \<lparr> category_id = i, category_name = n \<rparr>"
  by (simp add: ScheduleCategory_init_def getitem_def item_Some)

text \<open>
  C8. Take a schedule payload whose \<^verbatim>\<open>segments\<close> are two, the first with a category
  object carrying \<^verbatim>\<open>id\<close> and \<^verbatim>\<open>name\<close>, the second with a null category. The schedule
  constructed from it has exactly two segments, in the payload's order: the first one's
  category is the record with that id and that name, the second one's category is
  \<^verbatim>\<open>None\<close>.
\<close>

theorem Schedule_segment_categories:
  assumes "Schedule_init L data = Inr s"
    and "item2 data ''data'' ''segments'' = Inr (JList [seg1, seg2])"
    and "getitem seg1 ''category'' = Inr (JObj c)"
    and "map_of c ''id'' = Some i" and "map_of c ''name'' = Some n"
    and "getitem seg2 ''category'' = Inr JNull"
  shows "\<exists>s1 s2. segments s = [s1, s2]
           \<and> segment_category s1 = Some \<lparr> category_id = i, category_name = n \<rparr>
           \<and> segment_category s2 = None
           \<and> getitem seg1 ''id'' = Inr (segment_id s1)
           \<and> getitem seg2 ''id'' = Inr (segment_id s2)"
proof -
  from Schedule_segments[OF assms(1)] assms(2)
  have "comprehension (ScheduleSegment_init L) [seg1, seg2] = Inr (segments s)"
    by (auto simp: elements_def)
  then obtain s1 s2 where s1: "ScheduleSegment_init L seg1 = Inr s1"
    and s2: "ScheduleSegment_init L seg2 = Inr s2" and segs: "segments s = [s1, s2]"
    unfolding comprehension_two by blast
  have ne: "c \<noteq> []" using assms(4) by auto
  from ScheduleSegment_category[OF s1] assms(3) ne ScheduleCategory_obj[OF assms(4,5)]
  have c1: "segment_category s1 = Some \<lparr> category_id = i, category_name = n \<rparr>"
    and i1: "getitem seg1 ''id'' = Inr (segment_id s1)" by auto
  from ScheduleSegment_category[OF s2] assms(6)
  have c2: "segment_category s2 = None"
    and i2: "getitem seg2 ''id'' = Inr (segment_id s2)" by auto
  from segs c1 c2 i1 i2 show ?thesis by blast
qed

lemma segment_times:
  "parse_timestamp (ref_lib True) (JStr ''2021-05-01T12:00:00Z'')
      = Inr \<lparr> year = 2021, month = 5, day = 1, hour = 12, minute = 0, second = 0, utc = True \<rparr>"
  "parse_timestamp (ref_lib True) (JStr ''2021-05-01T12:30:00Z'')
      = Inr \<lparr> year = 2021, month = 5, day = 1, hour = 12, minute = 30, second = 0, utc = True \<rparr>"
  by (simp_all add: ref_lib_def timestamp_noon timestamp_half_past)

lemma ScheduleSegment_run:
  "ScheduleSegment_init (ref_lib True) (segment_payload i cat)
     = bnd (if truthy cat then bnd (ScheduleCategory_init cat) (\<lambda>c. Inr (Some c)) else Inr None)
         (\<lambda>ca. Inr \<lparr> segment_id = JStr i,
             segment_start_time = \<lparr> year = 2021, month = 5, day = 1, hour = 12, minute = 0,
                                    second = 0, utc = True \<rparr>,
             segment_end_time = \<lparr> year = 2021, month = 5, day = 1, hour = 12, minute = 30,
                                  second = 0, utc = True \<rparr>,
             segment_title = JStr ''t'', segment_canceled_until = None,
             segment_category = ca, segment_is_recurring = JBool False \<rparr>)"
  by (simp add: ScheduleSegment_init_def segment_payload_def getitem_def item_def segment_times)

lemma Schedule_run:
  "Schedule_init (ref_lib True) schedule_payload
     = Inr \<lparr> segments =
              [\<lparr> segment_id = JStr ''s1'',
                 segment_start_time = \<lparr> year = 2021, month = 5, day = 1, hour = 12,
                                        minute = 0, second = 0, utc = True \<rparr>,
                 segment_end_time = \<lparr> year = 2021, month = 5, day = 1, hour = 12,
                                      minute = 30, second = 0, utc = True \<rparr>,
                 segment_title = JStr ''t'', segment_canceled_until = None,
                 segment_category = Some \<lparr> category_id = JStr ''33103'',
                                           category_name = JStr ''Science'' \<rparr>,
                 segment_is_recurring = JBool False \<rparr>,
               \<lparr> segment_id = JStr ''s2'',
                 segment_start_time = \<lparr> year = 2021, month = 5, day = 1, hour = 12,
                                        minute = 0, second = 0, utc = True \<rparr>,
                 segment_end_time = \<lparr> year = 2021, month = 5, day = 1, hour = 12,
                                      minute = 30, second = 0, utc = True \<rparr>,
                 segment_title = JStr ''t'', segment_canceled_until = None,
                 segment_category = None, segment_is_recurring = JBool False \<rparr>],
             schedule_user = (JStr ''1'', JStr ''bob''), vacation = None \<rparr>"
proof -
  have u: "PartialUser (ref_lib True) = (\<lambda>i n. Inr (i, n))" by (simp add: ref_lib_def)
  show ?thesis
    by (simp add: Schedule_init_def schedule_payload_def item2_def item_def getitem_def
        elements_def user_from2_def ScheduleSegment_run ScheduleCategory_init_def u)
qed

theorem Schedule_segment_categories_witness:
  "\<exists>s1 s2. [\<lparr> segment_id = JStr ''s1'',
                 segment_start_time = \<lparr> year = 2021, month = 5, day = 1, hour = 12,
                                        minute = 0, second = 0, utc = True \<rparr>,
                 segment_end_time = \<lparr> year = 2021, month = 5, day = 1, hour = 12,
                                      minute = 30, second = 0, utc = True \<rparr>,
                 segment_title = JStr ''t'', segment_canceled_until = None,
                 segment_category = Some \<lparr> category_id = JStr ''33103'',
                                           category_name = JStr ''Science'' \<rparr>,
                 segment_is_recurring = JBool False \<rparr>,
               \<lparr> segment_id = JStr ''s2'',
                 segment_start_time = \<lparr> year = 2021, month = 5, day = 1, hour = 12,
                                        minute = 0, second = 0, utc = True \<rparr>,
                 segment_end_time = \<lparr> year = 2021, month = 5, day = 1, hour = 12,
                                      minute = 30, second = 0, utc = True \<rparr>,
                 segment_title = JStr ''t'', segment_canceled_until = None,
                 segment_category = None, segment_is_recurring = JBool False \<rparr>] = [s1, s2]
      \<and> segment_category s1
          = Some \<lparr> category_id = JStr ''33103'', category_name = JStr ''Science'' \<rparr>
      \<and> segment_category s2 = None
      \<and> segment_id s1 = JStr ''s1'' \<and> segment_id s2 = JStr ''s2''"
proof -
  have segs: "item2 schedule_payload ''data'' ''segments''
      = Inr (JList [segment_payload ''s1''
                      (JObj [(''id'', JStr ''33103''), (''name'', JStr ''Science'')]),
                    segment_payload ''s2'' JNull])"
    by (simp add: schedule_payload_def item2_def item_def getitem_def)
  have c1: "getitem (segment_payload ''s1''
                      (JObj [(''id'', JStr ''33103''), (''name'', JStr ''Science'')])) ''category''
      = Inr (JObj [(''id'', JStr ''33103''), (''name'', JStr ''Science'')])"
    by (simp add: segment_payload_def getitem_def item_def)
  have c2: "getitem (segment_payload ''s2'' JNull) ''category'' = Inr JNull"
    by (simp add: segment_payload_def getitem_def item_def)
  have i: "map_of [(''id'', JStr ''33103''), (''name'', JStr ''Science'')] ''id''
      = Some (JStr ''33103'')" by simp
  have n: "map_of [(''id'', JStr ''33103''), (''name'', JStr ''Science'')] ''name''
      = Some (JStr ''Science'')" by simp
  show ?thesis
    using Schedule_segment_categories[OF Schedule_run segs c1 i n c2]
    by (simp add: segment_payload_def getitem_def item_def)
qed

section \<open>Timestamps\<close>

lemma split_py_first:
  "\<exists>ws. split_py c s = takeWhile (\<lambda>x. x \<noteq> c) s # ws"
  by (induction s) auto

lemma split_first_str:
  "split_first c (JStr s) = Inr (takeWhile (\<lambda>x. x \<noteq> c) s)"
  using split_py_first[of c s] by (auto simp: split_first_def)

lemma timestamp_naive: "fromisoformat_py z ''2021-05-01T12:00:00''
   = Inr \<lparr> year = 2021, month = 5, day = 1, hour = 12, minute = 0, second = 0, utc = False \<rparr>"
proof (cases z)
  case True
  have "fromisoformat_py True ''2021-05-01T12:00:00''
     = Inr \<lparr> year = 2021, month = 5, day = 1, hour = 12, minute = 0, second = 0,
             utc = False \<rparr>"
    by code_simp
  with True show ?thesis by simp
next
  case False
  have "fromisoformat_py False ''2021-05-01T12:00:00''
     = Inr \<lparr> year = 2021, month = 5, day = 1, hour = 12, minute = 0, second = 0,
             utc = False \<rparr>"
    by code_simp
  with False show ?thesis by simp
qed

lemma timestamp_zone_old: "fromisoformat_py False ''2021-05-01T12:00:00Z'' = Inl ValueError"
  by code_simp

text \<open>
  C1 as stated fails twice. \<^verbatim>\<open>Prediction._parse_time\<close> cuts the text at its first
  \<^verbatim>\<open>"."\<close>: with a fraction the zone marker goes with it, without a fraction the marker
  stays. So \<^verbatim>\<open>"2021-05-01T12:00:00Z"\<close> is rejected by \<^verbatim>\<open>fromisoformat\<close> before Python 3.11
  and is a time with the UTC zone from 3.11 on, while \<^verbatim>\<open>"2021-05-01T12:00:00.123456Z"\<close> is
  the naive time 12:00:00 on both: the two results differ. And a ban event whose payload
  has no \<^verbatim>\<open>expires_at\<close> key raises \<^verbatim>\<open>KeyError\<close>.
\<close>

theorem Prediction_parse_time_zone_counterexample:
  "Prediction_parse_time (ref_lib False)
       (prediction_time_payload (JStr ''2021-05-01T12:00:00Z'')) ''created_at''
     = Inl ValueError
   \<and> Prediction_parse_time (ref_lib False)
       (prediction_time_payload (JStr ''2021-05-01T12:00:00.123456Z'')) ''created_at''
     = Inr (Some \<lparr> year = 2021, month = 5, day = 1, hour = 12, minute = 0, second = 0,
                    utc = False \<rparr>)
   \<and> Prediction_parse_time (ref_lib True)
       (prediction_time_payload (JStr ''2021-05-01T12:00:00Z'')) ''created_at''
     = Inr (Some \<lparr> year = 2021, month = 5, day = 1, hour = 12, minute = 0, second = 0,
                    utc = True \<rparr>)
   \<and> Prediction_parse_time (ref_lib True)
       (prediction_time_payload (JStr ''2021-05-01T12:00:00.123456Z'')) ''created_at''
     = Inr (Some \<lparr> year = 2021, month = 5, day = 1, hour = 12, minute = 0, second = 0,
                    utc = False \<rparr>)
   \<and> BanEvent_init (ref_lib True) (ban_payload []) None = Inl (KeyError ''expires_at'')"
proof -
  have f: "fromisoformat (ref_lib z) = fromisoformat_py z" for z
    by (simp add: ref_lib_def)
  have ban: "BanEvent_init (ref_lib True) (ban_payload []) None = Inl (KeyError ''expires_at'')"
    by (simp add: BanEvent_init_def ban_payload_def or_else_def user_from2_def time_at_def
      item_def item2_def getitem_def ref_lib_def timestamp_noon)
  show ?thesis
    by (simp add: Prediction_parse_time_def prediction_time_payload_def item_def
        split_first_str f timestamp_naive timestamp_zone_old timestamp_noon ban)
qed

text \<open>
  C1, amended. \<^verbatim>\<open>Prediction._parse_time\<close> gives \<^verbatim>\<open>None\<close> for a field that is missing from
  the payload or null. For a string it gives what \<^verbatim>\<open>datetime.fromisoformat\<close> makes of the
  text before the first \<^verbatim>\<open>"."\<close>: \<^verbatim>\<open>"2021-05-01T12:00:00.123456Z"\<close> is read as
  \<^verbatim>\<open>"2021-05-01T12:00:00"\<close>, truncated to the second, and a text without \<^verbatim>\<open>"."\<close> is read
  whole. A ban event constructs only when \<^verbatim>\<open>event_data\<close> has the key \<^verbatim>\<open>expires_at\<close>; its
  attribute is \<^verbatim>\<open>None\<close> when the value is null (or otherwise false) and the parsed time
  otherwise.
\<close>

theorem Prediction_parse_time_cases:
  assumes "f1 \<notin> set (map fst d1)" and "map_of d2 f2 = Some JNull"
    and "map_of d3 f3 = Some (JStr s)" and "BanEvent_init L bd b = Inr be"
  shows "Prediction_parse_time L d1 f1 = Inr None
       \<and> Prediction_parse_time L d2 f2 = Inr None
       \<and> Prediction_parse_time L d3 f3
           = bnd (fromisoformat L (takeWhile (\<lambda>c. c \<noteq> CHR ''.'') s)) (\<lambda>t. Inr (Some t))
       \<and> takeWhile (\<lambda>c. c \<noteq> CHR ''.'') ''2021-05-01T12:00:00.123456Z'' = ''2021-05-01T12:00:00''
       \<and> takeWhile (\<lambda>c. c \<noteq> CHR ''.'') ''2021-05-01T12:00:00Z'' = ''2021-05-01T12:00:00Z''
       \<and> (\<exists>v. item2 bd ''event_data'' ''expires_at'' = Inr v
              \<and> (if truthy v
                  then \<exists>t. parse_timestamp L v = Inr t \<and> ban_expires_at be = Some t
                  else ban_expires_at be = None))"
proof -
  have a: "Prediction_parse_time L d1 f1 = Inr None"
    using assms(1) by (simp add: Prediction_parse_time_def)
  have k2: "f2 \<in> set (map fst d2)"
    using assms(2) by (metis map_of_eq_None_iff option.distinct(1) set_map)
  have b: "Prediction_parse_time L d2 f2 = Inr None"
    using assms(2) k2 by (simp add: Prediction_parse_time_def item_Some)
  have k3: "f3 \<in> set (map fst d3)"
    using assms(3) by (metis map_of_eq_None_iff option.distinct(1) set_map)
  have c: "Prediction_parse_time L d3 f3
           = bnd (fromisoformat L (takeWhile (\<lambda>c. c \<noteq> CHR ''.'') s)) (\<lambda>t. Inr (Some t))"
    using assms(3) k3 by (simp add: Prediction_parse_time_def item_Some split_first_str)
  show ?thesis
    using a b c BanEvent_expires_at[OF assms(4)] by simp
qed

theorem Prediction_parse_time_cases_witness:
  "Prediction_parse_time (ref_lib True)
       (prediction_time_payload (JStr ''2021-05-01T12:00:00.123456Z'')) ''locked_at'' = Inr None
   \<and> Prediction_parse_time (ref_lib True)
       (prediction_time_payload (JStr ''2021-05-01T12:00:00.123456Z'')) ''ended_at'' = Inr None
   \<and> Prediction_parse_time (ref_lib True)
       (prediction_time_payload (JStr ''2021-05-01T12:00:00.123456Z'')) ''created_at''
     = Inr (Some \<lparr> year = 2021, month = 5, day = 1, hour = 12, minute = 0, second = 0,
                    utc = False \<rparr>)
   \<and> (\<exists>v. item2 (ban_payload [(''expires_at'', JNull)]) ''event_data'' ''expires_at'' = Inr v
          \<and> \<not> truthy v)"
proof -
  have h1: "''locked_at'' \<notin> set (map fst
      (prediction_time_payload (JStr ''2021-05-01T12:00:00.123456Z'')))"
    by (simp add: prediction_time_payload_def)
  have h2: "map_of (prediction_time_payload (JStr ''2021-05-01T12:00:00.123456Z'')) ''ended_at''
      = Some JNull"
    by (simp add: prediction_time_payload_def)
  have h3: "map_of (prediction_time_payload (JStr ''2021-05-01T12:00:00.123456Z'')) ''created_at''
      = Some (JStr ''2021-05-01T12:00:00.123456Z'')"
    by (simp add: prediction_time_payload_def)
  have f: "fromisoformat (ref_lib True) = fromisoformat_py True"
    by (simp add: ref_lib_def)
  have x: "item2 (ban_payload [(''expires_at'', JNull)]) ''event_data'' ''expires_at'' = Inr JNull"
    by (simp add: ban_payload_def item2_def item_def getitem_def)
  show ?thesis
    using Prediction_parse_time_cases[OF h1 h2 h3 BanEvent_run] x
    by (simp add: f timestamp_naive)
qed

end
